theory Spec2Isabelle
  imports Main
begin

section \<open>Python values\<close>

text \<open>
  The values that travel through the program are what \<open>json.loads\<close> and the vendor SDK
  produce: \<open>None\<close>, booleans, integers, strings, lists and dictionaries with string keys.
  A dictionary is an association list read with \<open>map_of\<close> (keys are distinct in
  every dictionary the program builds). JSON floats do not occur in the data of this API and
  are left out.
\<close>

datatype json =
    JNull
  | JBool bool
  | JInt int
  | JStr string
  | JArr "json list"
  | JObj "(string \<times> json) list"

text \<open>Python truthiness (\<open>if x:\<close>, \<open>not x\<close>).\<close>

fun truthy :: "json \<Rightarrow> bool" where
  "truthy JNull = False"
| "truthy (JBool b) = b"
| "truthy (JInt n) = (n \<noteq> 0)"
| "truthy (JStr s) = (s \<noteq> [])"
| "truthy (JArr xs) = (xs \<noteq> [])"
| "truthy (JObj kvs) = (kvs \<noteq> [])"

text \<open>An \<open>Optional[str]\<close>: \<open>None\<close> and the empty string are falsy.\<close>

fun str_truthy :: "string option \<Rightarrow> bool" where
  "str_truthy None = False"
| "str_truthy (Some s) = (s \<noteq> [])"

text \<open>What an f-string prints for an \<open>Optional[str]\<close>.\<close>

fun fmt_opt :: "string option \<Rightarrow> string" where
  "fmt_opt None = ''None''"
| "fmt_opt (Some s) = s"

section \<open>Exceptions\<close>

text \<open>
  An HTTP response of the \<open>requests\<close> library: status code, body text, and what
  \<open>response.json()\<close> gives (\<open>None\<close> when the body does not parse and the call raises).
\<close>

record response =
  status_code :: int
  text_body :: string
  json_body :: "json option"

text \<open>
  The exceptions the program can meet. \<open>APIError\<close> is the vendor SDK's error with its
  \<open>status\<close> and \<open>message\<close>; the next group is the hierarchy of
  \<open>requests.exceptions\<close> (\<open>ConnectTimeout\<close> derives from both \<open>ConnectionError\<close> and
  \<open>Timeout\<close>, \<open>ReadTimeout\<close> from \<open>Timeout\<close>, \<open>JSONDecodeError\<close> and every other
  one from \<open>RequestException\<close>); the rest are built-in exceptions. Each carries its
  message; \<open>KeyError\<close> carries the missing key, which \<open>str(e)\<close> prints between quotes;
  \<open>HTTPError\<close> also carries its \<open>response\<close> attribute. The message of a built-in
  exception is abbreviated: which error record a handler builds is modelled exactly, the
  wording of its \<open>details\<close> for a \<open>TypeError\<close> or a decode error is not.
\<close>

datatype exn =
    APIError json json
  | HTTPError "response option" string
  | ConnectionError string
  | ConnectTimeout string
  | ReadTimeout string
  | Timeout string
  | JSONDecodeError string
  | RequestException string
  | AttributeError string
  | KeyError string
  | TypeError string
  | OtherException string

fun json_str :: "json \<Rightarrow> string" where
  "json_str (JStr s) = s"
| "json_str JNull = ''None''"
| "json_str (JBool b) = (if b then ''True'' else ''False'')"
| "json_str _ = ''<value>''"

fun exn_str :: "exn \<Rightarrow> string" where
  "exn_str (APIError st msg) = json_str msg"
| "exn_str (HTTPError r m) = m"
| "exn_str (ConnectionError m) = m"
| "exn_str (ConnectTimeout m) = m"
| "exn_str (ReadTimeout m) = m"
| "exn_str (Timeout m) = m"
| "exn_str (JSONDecodeError m) = m"
| "exn_str (RequestException m) = m"
| "exn_str (AttributeError m) = m"
| "exn_str (KeyError m) = [CHR 0x27] @ m @ [CHR 0x27]"
| "exn_str (TypeError m) = m"
| "exn_str (OtherException m) = m"

section \<open>The API wrapper: credential and scope state\<close>

text \<open>
  \<open>MerakiAPIWrapper\<close> of \<open>meraki_tools/meraki_api_utils.py\<close>. The fields are the
  instance attributes. The SDK client \<open>_dashboard\<close> is represented by the key it was built
  with. \<open>api_log\<close> is not an attribute: it records, in order, the SDK calls issued through
  the client and the HTTP requests sent with \<open>requests.request\<close> (method, URL, JSON
  payload), so that "no call happened" can be said.
\<close>

datatype api_call =
    CallGetOrganizations
  | CallGetOrganizationNetworks string
  | CallHttp string string "json option"

record wrapper =
  api_key :: "string option"
  organization_id :: "string option"
  organization_name :: "string option"
  network_id :: "string option"
  network_name :: "string option"
  enable_caching :: bool
  dashboard :: "string option"
  organizations_cache :: "json list option"
  networks_cache :: "(string \<rightharpoonup> json list) option"
  required_app_setup_param :: "string \<rightharpoonup> bool"
  api_log :: "api_call list"

text \<open>
  What the program reads from outside: the environment variable \<open>MK_CSM_KEY\<close>, the
  constructor \<open>meraki.DashboardAPI\<close> applied to a key (\<open>None\<close>: it succeeds,
  \<open>Some e\<close>: it raises \<open>e\<close>), the two SDK calls, and \<open>requests.request\<close> applied to
  method, URL and payload (\<open>Inl e\<close>: the call raises \<open>e\<close>).
\<close>

record env =
  getenv_MK_CSM_KEY :: "string option"
  DashboardAPI :: "string option \<Rightarrow> exn option"
  getOrganizations :: "exn + json list"
  getOrganizationNetworks :: "string \<Rightarrow> exn + json list"
  request :: "string \<Rightarrow> string \<Rightarrow> json option \<Rightarrow> exn + response"

text \<open>\<open>set_api_key\<close>: the argument, else the environment variable, else \<open>None\<close>;
  then the client is rebuilt or dropped. A raising constructor leaves the key stored.\<close>

definition set_api_key :: "env \<Rightarrow> string option \<Rightarrow> wrapper \<Rightarrow> (exn + unit) \<times> wrapper" where
  "set_api_key e k s =
     (let s1 = (if str_truthy k then s\<lparr>api_key := k\<rparr>
                else if str_truthy (getenv_MK_CSM_KEY e) then s\<lparr>api_key := getenv_MK_CSM_KEY e\<rparr>
                else s\<lparr>api_key := None\<rparr>)
      in if str_truthy (api_key s1)
         then (case DashboardAPI e (api_key s1) of
                 Some err \<Rightarrow> (Inl err, s1)
               | None \<Rightarrow> (Inr (), s1\<lparr>dashboard := api_key s1\<rparr>))
         else (Inr (), s1\<lparr>dashboard := None\<rparr>))"

definition is_api_key_set :: "wrapper \<Rightarrow> bool" where
  "is_api_key_set s = (api_key s \<noteq> None \<and> api_key s \<noteq> Some [])"

definition set_organization_id :: "string option \<Rightarrow> string option \<Rightarrow> wrapper \<Rightarrow> wrapper" where
  "set_organization_id oid oname s =
     (if str_truthy oid
      then (let s1 = s\<lparr>organization_id := oid\<rparr>
            in if str_truthy oname then s1\<lparr>organization_name := oname\<rparr> else s1)
      else s)"

definition is_organization_id_set :: "wrapper \<Rightarrow> bool" where
  "is_organization_id_set s = (organization_id s \<noteq> None \<and> organization_id s \<noteq> Some [])"

definition set_network_id :: "string option \<Rightarrow> string option \<Rightarrow> wrapper \<Rightarrow> wrapper" where
  "set_network_id nid nname s =
     (if str_truthy nid
      then (let s1 = s\<lparr>network_id := nid\<rparr>
            in if str_truthy nname then s1\<lparr>network_name := nname\<rparr> else s1)
      else s)"

definition is_network_id_set :: "wrapper \<Rightarrow> bool" where
  "is_network_id_set s = (network_id s \<noteq> None \<and> network_id s \<noteq> Some [])"

text \<open>\<open>required_params.get(key, False)\<close> on a \<open>Dict[str, bool]\<close>.\<close>

definition required :: "(string \<rightharpoonup> bool) \<Rightarrow> string \<Rightarrow> bool" where
  "required rp k = (case rp k of None \<Rightarrow> False | Some b \<Rightarrow> b)"

definition check_required_parameter_order :: "(string \<rightharpoonup> bool) \<Rightarrow> bool" where
  "check_required_parameter_order rp =
     (let api_key_required = required rp ''api_key'';
          organization_id_required = required rp ''organization_id'';
          network_id_required = required rp ''network_id''
      in if organization_id_required \<and> \<not> api_key_required then False
         else if network_id_required \<and> (\<not> api_key_required \<or> \<not> organization_id_required) then False
         else True)"

text \<open>
  \<open>setup_application_parameters\<close>, in the order of the source. The three blocks
  \<open>if required_app_setup_parm.get(...)\<close> are three stages; a stage answers \<open>Inr True\<close> to
  go on, \<open>Inr False\<close> where the source returns \<open>False\<close>, \<open>Inl e\<close> where it raises.
\<close>

definition setup_api_key_stage ::
  "env \<Rightarrow> (string \<rightharpoonup> bool) \<Rightarrow> (string \<rightharpoonup> string) \<Rightarrow> wrapper \<Rightarrow> (exn + bool) \<times> wrapper" where
  "setup_api_key_stage e rp eff s =
     (if required rp ''api_key''
      then (case set_api_key e (eff ''api_key'') s of
              (Inl err, s1) \<Rightarrow> (Inl err, s1)
            | (Inr u, s1) \<Rightarrow> if \<not> is_api_key_set s1 then (Inr False, s1) else (Inr True, s1))
      else (Inr True, s))"

definition setup_organization_stage ::
  "(string \<rightharpoonup> bool) \<Rightarrow> (string \<rightharpoonup> string) \<Rightarrow> wrapper \<Rightarrow> bool \<times> wrapper" where
  "setup_organization_stage rp eff s =
     (if required rp ''organization_id''
      then if \<not> is_api_key_set s then (False, s)
           else if str_truthy (eff ''organization_id'')
                then (let s1 = set_organization_id (eff ''organization_id'') (eff ''org_name'') s
                      in if \<not> is_organization_id_set s1 then (False, s1) else (True, s1))
                else (False, s)
      else (True, s))"

definition setup_network_stage ::
  "(string \<rightharpoonup> bool) \<Rightarrow> (string \<rightharpoonup> string) \<Rightarrow> wrapper \<Rightarrow> bool \<times> wrapper" where
  "setup_network_stage rp eff s =
     (if required rp ''network_id''
      then if \<not> is_api_key_set s \<or> \<not> is_organization_id_set s then (False, s)
           else if str_truthy (eff ''network_id'')
                then (let s1 = set_network_id (eff ''network_id'') (eff ''net_name'') s
                      in if \<not> is_network_id_set s1 then (False, s1) else (True, s1))
                else (False, s)
      else (True, s))"

definition setup_application_parameters ::
  "env \<Rightarrow> (string \<rightharpoonup> bool) \<Rightarrow> (string \<rightharpoonup> string) option \<Rightarrow> bool option \<Rightarrow> wrapper
     \<Rightarrow> (exn + bool) \<times> wrapper" where
  "setup_application_parameters e rp app_setup_param caching s =
     (let s0 = (case caching of None \<Rightarrow> s | Some c \<Rightarrow> s\<lparr>enable_caching := c\<rparr>)
      in if \<not> check_required_parameter_order rp then (Inr False, s0)
         else
           (let s1 = s0\<lparr>required_app_setup_param := rp\<rparr>;
                eff = (case app_setup_param of None \<Rightarrow> Map.empty | Some p \<Rightarrow> p)
            in case setup_api_key_stage e rp eff s1 of
                 (Inl err, s2) \<Rightarrow> (Inl err, s2)
               | (Inr False, s2) \<Rightarrow> (Inr False, s2)
               | (Inr True, s2) \<Rightarrow>
                   (case setup_organization_stage rp eff s2 of
                      (False, s3) \<Rightarrow> (Inr False, s3)
                    | (True, s3) \<Rightarrow>
                        (case setup_network_stage rp eff s3 of
                           (False, s4) \<Rightarrow> (Inr False, s4)
                         | (True, s4) \<Rightarrow> (Inr True, s4)))))"

text \<open>\<open>__init__\<close>: every attribute starts at \<open>None\<close>, then \<open>set_api_key\<close> runs.\<close>

definition new_wrapper :: "env \<Rightarrow> string option \<Rightarrow> bool \<Rightarrow> (exn + unit) \<times> wrapper" where
  "new_wrapper e initial_api_key caching =
     set_api_key e initial_api_key
       \<lparr>api_key = None, organization_id = None, organization_name = None,
        network_id = None, network_name = None, enable_caching = caching,
        dashboard = None, organizations_cache = None, networks_cache = None,
        required_app_setup_param = Map.empty, api_log = []\<rparr>"

section \<open>The API wrapper: cache layer\<close>

text \<open>Running the next step unless the previous one raised.\<close>

definition and_then :: "exn + 'a \<Rightarrow> ('a \<Rightarrow> exn + 'b) \<Rightarrow> exn + 'b" where
  "and_then m f = (case m of Inl err \<Rightarrow> Inl err | Inr v \<Rightarrow> f v)"

text \<open>A list comprehension whose body may raise: the first exception ends it.\<close>

fun map_exn :: "('a \<Rightarrow> exn + 'b) \<Rightarrow> 'a list \<Rightarrow> exn + 'b list" where
  "map_exn f [] = Inr []"
| "map_exn f (x # xs) =
     (case f x of
        Inl err \<Rightarrow> Inl err
      | Inr y \<Rightarrow> (case map_exn f xs of Inl err \<Rightarrow> Inl err | Inr ys \<Rightarrow> Inr (y # ys)))"

fun py_type_name :: "json \<Rightarrow> string" where
  "py_type_name JNull = ''NoneType''"
| "py_type_name (JBool b) = ''bool''"
| "py_type_name (JInt n) = ''int''"
| "py_type_name (JStr s) = ''str''"
| "py_type_name (JArr xs) = ''list''"
| "py_type_name (JObj kvs) = ''dict''"

definition no_attribute :: "json \<Rightarrow> string \<Rightarrow> exn" where
  "no_attribute j a =
     AttributeError ([CHR 0x27] @ py_type_name j @ [CHR 0x27] @ '' object has no attribute ''
                     @ [CHR 0x27] @ a @ [CHR 0x27])"

text \<open>\<open>obj.get(key, default)\<close>: only a dictionary has the method.\<close>

fun py_get :: "json \<Rightarrow> string \<Rightarrow> json \<Rightarrow> exn + json" where
  "py_get (JObj kvs) k d = Inr (case map_of kvs k of None \<Rightarrow> d | Some v \<Rightarrow> v)"
| "py_get j k d = Inl (no_attribute j ''get'')"

text \<open>\<open>isinstance(r, dict) and "error" in r\<close>.\<close>

fun is_error :: "json \<Rightarrow> bool" where
  "is_error (JObj kvs) = (map_of kvs ''error'' \<noteq> None)"
| "is_error j = False"

definition error_record :: "string \<Rightarrow> json \<Rightarrow> json" where
  "error_record kind details = JObj [(''error'', JStr kind), (''details'', details)]"

definition error_record_status :: "string \<Rightarrow> json \<Rightarrow> json \<Rightarrow> json" where
  "error_record_status kind details st =
     JObj [(''error'', JStr kind), (''details'', details), (''status_code'', st)]"

text \<open>The \<open>except meraki.APIError\<close> and \<open>except Exception\<close> handlers of both fetches.\<close>

fun fetch_error :: "exn \<Rightarrow> json" where
  "fetch_error (APIError st msg) = error_record_status ''MerakiAPIError'' msg st"
| "fetch_error err = error_record ''UnexpectedError'' (JStr (exn_str err))"

definition get_dashboard :: "env \<Rightarrow> wrapper \<Rightarrow> (exn + string option) \<times> wrapper" where
  "get_dashboard e s =
     (if dashboard s = None
      then if \<not> str_truthy (api_key s) then (Inr None, s)
           else (case DashboardAPI e (api_key s) of
                   Some err \<Rightarrow> (Inl err, s)
                 | None \<Rightarrow> (Inr (api_key s), s\<lparr>dashboard := api_key s\<rparr>))
      else (Inr (dashboard s), s))"

text \<open>\<open>_get_organizations\<close>.\<close>

definition get_organizations :: "env \<Rightarrow> bool \<Rightarrow> wrapper \<Rightarrow> (exn + json) \<times> wrapper" where
  "get_organizations e use_cache s =
     (let should_attempt_cache_read = (use_cache \<and> enable_caching s)
      in if should_attempt_cache_read \<and> organizations_cache s \<noteq> None
         then (case organizations_cache s of
                 Some cached \<Rightarrow> (Inr (JArr cached), s)
               | None \<Rightarrow> (Inr JNull, s))
         else (case get_dashboard e s of
                 (Inl err, s1) \<Rightarrow> (Inl err, s1)
               | (Inr None, s1) \<Rightarrow>
                   (Inr (error_record ''DashboardAPIError''
                           (JStr ''Meraki Dashboard API not initialized.'')), s1)
               | (Inr (Some d), s1) \<Rightarrow>
                   (let s2 = s1\<lparr>api_log := api_log s1 @ [CallGetOrganizations]\<rparr>
                    in case getOrganizations e of
                         Inr fetched_data \<Rightarrow>
                           (Inr (JArr fetched_data),
                            if enable_caching s2 then s2\<lparr>organizations_cache := Some fetched_data\<rparr>
                            else s2)
                       | Inl err \<Rightarrow>
                           (Inr (fetch_error err),
                            if enable_caching s2 then s2\<lparr>organizations_cache := Some []\<rparr>
                            else s2))))"

text \<open>\<open>_get_networks\<close>.\<close>

definition get_networks ::
  "env \<Rightarrow> string option \<Rightarrow> bool \<Rightarrow> wrapper \<Rightarrow> (exn + json) \<times> wrapper" where
  "get_networks e org_arg use_cache s =
     (let current = (if org_arg \<noteq> None then org_arg else organization_id s)
      in if \<not> str_truthy current
         then (Inr (error_record ''NoOrganizationSelected''
                      (JStr ''Please select an organization first.'')), s)
         else
           (let oid = fmt_opt current;
                s0 = (if networks_cache s = None then s\<lparr>networks_cache := Some Map.empty\<rparr> else s);
                cache = (case networks_cache s0 of None \<Rightarrow> Map.empty | Some m \<Rightarrow> m);
                should_attempt_cache_read = (use_cache \<and> enable_caching s0)
            in if should_attempt_cache_read \<and> cache oid \<noteq> None
               then (case cache oid of
                       Some cached \<Rightarrow> (Inr (JArr cached), s0)
                     | None \<Rightarrow> (Inr JNull, s0))
               else (case get_dashboard e s0 of
                       (Inl err, s1) \<Rightarrow> (Inl err, s1)
                     | (Inr None, s1) \<Rightarrow>
                         (Inr (error_record ''DashboardAPIError''
                                 (JStr ''Meraki Dashboard API not initialized.'')), s1)
                     | (Inr (Some d), s1) \<Rightarrow>
                         (let s2 = s1\<lparr>api_log := api_log s1 @ [CallGetOrganizationNetworks oid]\<rparr>
                          in case getOrganizationNetworks e oid of
                               Inr fetched_data \<Rightarrow>
                                 (Inr (JArr fetched_data),
                                  if enable_caching s2
                                  then s2\<lparr>networks_cache := Some (cache(oid \<mapsto> fetched_data))\<rparr>
                                  else s2)
                             | Inl err \<Rightarrow>
                                 (Inr (fetch_error err),
                                  if enable_caching s2
                                  then s2\<lparr>networks_cache := Some (cache(oid \<mapsto> []))\<rparr>
                                  else s2)))))"

text \<open>One display row of \<open>list_organizations\<close>; the dictionary display evaluates its
  values from left to right.\<close>

definition format_organization :: "json \<Rightarrow> exn + json" where
  "format_organization org =
     and_then (py_get org ''id'' JNull) (\<lambda>v_id.
     and_then (py_get org ''name'' JNull) (\<lambda>v_name.
     and_then (py_get org ''url'' JNull) (\<lambda>v_url.
     and_then (py_get org ''api'' (JObj [])) (\<lambda>api.
     and_then (py_get api ''enabled'' (JBool False)) (\<lambda>v_enabled.
     and_then (py_get org ''licensing'' (JObj [])) (\<lambda>licensing.
     and_then (py_get licensing ''model'' JNull) (\<lambda>v_model.
       Inr (JObj [(''id'', v_id), (''name'', v_name), (''url'', v_url),
                  (''api enabled'', v_enabled), (''licensing model'', v_model)]))))))))"

definition list_organizations :: "env \<Rightarrow> bool \<Rightarrow> wrapper \<Rightarrow> (exn + json) \<times> wrapper" where
  "list_organizations e use_cache s =
     (case get_organizations e use_cache s of
        (Inl err, s1) \<Rightarrow> (Inl err, s1)
      | (Inr raw_response, s1) \<Rightarrow>
          if is_error raw_response then (Inr raw_response, s1)
          else (case raw_response of
                  JArr organizations_data \<Rightarrow>
                    if organizations_data \<noteq> []
                    then (case map_exn format_organization organizations_data of
                            Inl err \<Rightarrow> (Inl err, s1)
                          | Inr table_data \<Rightarrow> (Inr (JArr table_data), s1))
                    else (Inr (JArr []), s1)
                | _ \<Rightarrow>
                    (Inr (error_record ''UnexpectedReturnType''
                            (JStr ''Internal function returned an unexpected type.'')), s1)))"

text \<open>\<open>sep.join(iterable)\<close> with string items.\<close>

fun join_strs :: "string \<Rightarrow> string list \<Rightarrow> string" where
  "join_strs sep [] = []"
| "join_strs sep [x] = x"
| "join_strs sep (x # y # ys) = x @ sep @ join_strs sep (y # ys)"

fun the_strs :: "json list \<Rightarrow> string list option" where
  "the_strs [] = Some []"
| "the_strs (JStr s # js) = (case the_strs js of None \<Rightarrow> None | Some ss \<Rightarrow> Some (s # ss))"
| "the_strs (j # js) = None"

text \<open>\<open>", ".join(v)\<close>: a list of strings is joined, a string is iterated by character, a
  dictionary by key; anything else is a \<open>TypeError\<close>.\<close>

fun py_join :: "string \<Rightarrow> json \<Rightarrow> exn + json" where
  "py_join sep (JArr js) =
     (case the_strs js of
        None \<Rightarrow> Inl (TypeError ''sequence item: expected str instance'')
      | Some ss \<Rightarrow> Inr (JStr (join_strs sep ss)))"
| "py_join sep (JStr s) = Inr (JStr (join_strs sep (map (\<lambda>c. [c]) s)))"
| "py_join sep (JObj kvs) = Inr (JStr (join_strs sep (map fst kvs)))"
| "py_join sep j = Inl (TypeError ''can only join an iterable'')"

text \<open>One display row of the wrapper's \<open>list_networks\<close> (the key \<open>yype\<close> is the source's).\<close>

definition format_network :: "json \<Rightarrow> exn + json" where
  "format_network network =
     and_then (py_get network ''id'' JNull) (\<lambda>v_id.
     and_then (py_get network ''name'' JNull) (\<lambda>v_name.
     and_then (py_get network ''type'' JNull) (\<lambda>v_type.
     and_then (py_get network ''timeZone'' JNull) (\<lambda>v_tz.
     and_then (py_get network ''tags'' (JArr [])) (\<lambda>tags.
     and_then (py_join '', '' tags) (\<lambda>v_tags.
       Inr (JObj [(''id'', v_id), (''name'', v_name), (''yype'', v_type),
                  (''time zone'', v_tz), (''tags'', v_tags)])))))))"

definition list_networks ::
  "env \<Rightarrow> string option \<Rightarrow> bool \<Rightarrow> wrapper \<Rightarrow> (exn + json) \<times> wrapper" where
  "list_networks e org_arg use_cache s =
     (case get_networks e org_arg use_cache s of
        (Inl err, s1) \<Rightarrow> (Inl err, s1)
      | (Inr resp, s1) \<Rightarrow>
          if is_error resp then (Inr resp, s1)
          else (case resp of
                  JArr nets \<Rightarrow>
                    if nets = [] then (Inr (JArr []), s1)
                    else (case map_exn format_network nets of
                            Inl err \<Rightarrow> (Inl err, s1)
                          | Inr table_data \<Rightarrow> (Inr (JArr table_data), s1))
                | _ \<Rightarrow> (Inr (JArr []), s1)))"

text \<open>
  The operations of a wrapper instance that can write its attributes, as one step
  function: the state after the call, whether the call returned or raised.
\<close>

datatype wrapper_op =
    OpSetApiKey "string option"
  | OpSetOrganizationId "string option" "string option"
  | OpSetNetworkId "string option" "string option"
  | OpGetDashboard
  | OpGetOrganizations bool
  | OpGetNetworks "string option" bool
  | OpListOrganizations bool
  | OpListNetworks "string option" bool
  | OpSetup "string \<rightharpoonup> bool" "(string \<rightharpoonup> string) option" "bool option"

fun run_op :: "env \<Rightarrow> wrapper_op \<Rightarrow> wrapper \<Rightarrow> wrapper" where
  "run_op e (OpSetApiKey k) s = snd (set_api_key e k s)"
| "run_op e (OpSetOrganizationId i n) s = set_organization_id i n s"
| "run_op e (OpSetNetworkId i n) s = set_network_id i n s"
| "run_op e OpGetDashboard s = snd (get_dashboard e s)"
| "run_op e (OpGetOrganizations c) s = snd (get_organizations e c s)"
| "run_op e (OpGetNetworks i c) s = snd (get_networks e i c s)"
| "run_op e (OpListOrganizations c) s = snd (list_organizations e c s)"
| "run_op e (OpListNetworks i c) s = snd (list_networks e i c s)"
| "run_op e (OpSetup rp p c) s = snd (setup_application_parameters e rp p c s)"

text \<open>Whether an operation, in an environment, is a credential reset: \<open>set_api_key\<close>
  reached with an empty argument while \<open>MK_CSM_KEY\<close> is empty or absent.\<close>

fun clears_credential :: "env \<Rightarrow> wrapper_op \<Rightarrow> bool" where
  "clears_credential e (OpSetApiKey k) = (\<not> str_truthy k \<and> \<not> str_truthy (getenv_MK_CSM_KEY e))"
| "clears_credential e (OpSetup rp p c) =
     (check_required_parameter_order rp \<and> required rp ''api_key''
      \<and> \<not> str_truthy ((case p of None \<Rightarrow> Map.empty | Some m \<Rightarrow> m) ''api_key'')
      \<and> \<not> str_truthy (getenv_MK_CSM_KEY e))"
| "clears_credential e other = False"

section \<open>More of Python on these values\<close>

text \<open>Iterating a value: a list gives its items, a string its characters, a dictionary its
  keys; anything else is a \<open>TypeError\<close>.\<close>

fun py_iter :: "json \<Rightarrow> exn + json list" where
  "py_iter (JArr xs) = Inr xs"
| "py_iter (JStr s) = Inr (map (\<lambda>c. JStr [c]) s)"
| "py_iter (JObj kvs) = Inr (map (\<lambda>kv. JStr (fst kv)) kvs)"
| "py_iter j = Inl (TypeError ([CHR 0x27] @ py_type_name j @ [CHR 0x27] @ '' object is not iterable''))"

text \<open>\<open>len(x)\<close>.\<close>

fun py_len :: "json \<Rightarrow> exn + nat" where
  "py_len (JArr xs) = Inr (length xs)"
| "py_len (JStr s) = Inr (length s)"
| "py_len (JObj kvs) = Inr (length kvs)"
| "py_len j = Inl (TypeError (''object of type '' @ [CHR 0x27] @ py_type_name j @ [CHR 0x27] @ '' has no len()''))"

fun has_substr :: "string \<Rightarrow> string \<Rightarrow> bool" where
  "has_substr k [] = (k = [])"
| "has_substr k (c # cs) = (take (length k) (c # cs) = k \<or> has_substr k cs)"

text \<open>\<open>key in x\<close> for a string \<open>key\<close>: a key of a dictionary, an item of a list, a
  substring of a string.\<close>

fun py_contains :: "string \<Rightarrow> json \<Rightarrow> exn + bool" where
  "py_contains k (JObj kvs) = Inr (map_of kvs k \<noteq> None)"
| "py_contains k (JArr xs) = Inr (List.member xs (JStr k))"
| "py_contains k (JStr s) = Inr (has_substr k s)"
| "py_contains k j = Inl (TypeError (''argument of type '' @ [CHR 0x27] @ py_type_name j @ [CHR 0x27] @ '' is not iterable''))"

text \<open>\<open>x[key]\<close> for a string \<open>key\<close>.\<close>

fun py_getitem :: "json \<Rightarrow> string \<Rightarrow> exn + json" where
  "py_getitem (JObj kvs) k =
     (case map_of kvs k of None \<Rightarrow> Inl (KeyError k) | Some v \<Rightarrow> Inr v)"
| "py_getitem j k = Inl (TypeError ([CHR 0x27] @ py_type_name j @ [CHR 0x27] @ '' object is not subscriptable with a string''))"

text \<open>
  A dictionary built by the program with keys taken from the data: a map from keys to
  values. A list or a dictionary cannot be a key (\<open>TypeError: unhashable type\<close>), and
  \<open>True\<close> and \<open>1\<close>, \<open>False\<close> and \<open>0\<close> are the same key.
\<close>

type_synonym pydict = "json \<rightharpoonup> json"

fun py_hashable :: "json \<Rightarrow> bool" where
  "py_hashable (JArr xs) = False"
| "py_hashable (JObj kvs) = False"
| "py_hashable j = True"

fun py_key :: "json \<Rightarrow> json" where
  "py_key (JBool b) = JInt (if b then 1 else 0)"
| "py_key j = j"

definition unhashable :: "json \<Rightarrow> exn" where
  "unhashable j = TypeError (''unhashable type: '' @ [CHR 0x27] @ py_type_name j @ [CHR 0x27])"

definition dict_set :: "pydict \<Rightarrow> json \<Rightarrow> json \<Rightarrow> exn + pydict" where
  "dict_set m k v = (if py_hashable k then Inr (m(py_key k \<mapsto> v)) else Inl (unhashable k))"

definition dict_get :: "pydict \<Rightarrow> json \<Rightarrow> json \<Rightarrow> exn + json" where
  "dict_get m k d =
     (if py_hashable k then Inr (case m (py_key k) of None \<Rightarrow> d | Some v \<Rightarrow> v)
      else Inl (unhashable k))"

definition dict_contains :: "pydict \<Rightarrow> json \<Rightarrow> exn + bool" where
  "dict_contains m k = (if py_hashable k then Inr (m (py_key k) \<noteq> None) else Inl (unhashable k))"

text \<open>The comprehension \<open>{x[kf]: x[vf] for x in xs}\<close>: the key is evaluated before the
  value, a later item replaces an earlier one with the same key.\<close>

fun dict_of_items :: "string \<Rightarrow> string \<Rightarrow> json list \<Rightarrow> pydict \<Rightarrow> exn + pydict" where
  "dict_of_items kf vf [] m = Inr m"
| "dict_of_items kf vf (x # xs) m =
     (case py_getitem x kf of
        Inl err \<Rightarrow> Inl err
      | Inr k \<Rightarrow>
          (case py_getitem x vf of
             Inl err \<Rightarrow> Inl err
           | Inr v \<Rightarrow>
               (case dict_set m k v of
                  Inl err \<Rightarrow> Inl err
                | Inr m1 \<Rightarrow> dict_of_items kf vf xs m1)))"

section \<open>The REST client\<close>

text \<open>
  \<open>Response.raise_for_status\<close> of the \<open>requests\<close> library raises \<open>HTTPError\<close>, carrying
  the response, for a status from 400 to 599. \<open>Response.ok\<close> is \<open>True\<close> unless
  \<open>raise_for_status\<close> raises, and \<open>Response.__bool__\<close> returns \<open>ok\<close>: this is the
  truth value the program reads in \<open>if http_err.response\<close>. The message of the exception is
  only logged.
\<close>

definition raise_for_status :: "response \<Rightarrow> exn option" where
  "raise_for_status r =
     (if 400 \<le> status_code r \<and> status_code r < 600
      then Some (HTTPError (Some r) ''HTTP error'') else None)"

definition response_bool :: "response \<Rightarrow> bool" where
  "response_bool r = (raise_for_status r = None)"

text \<open>\<open>response.text.strip()\<close> is truthy when some character is not whitespace.\<close>

definition is_py_space :: "char \<Rightarrow> bool" where
  "is_py_space c =
     (c = CHR 0x20 \<or> c = CHR 0x09 \<or> c = CHR 0x0A \<or> c = CHR 0x0B \<or> c = CHR 0x0C
      \<or> c = CHR 0x0D \<or> c = CHR 0x1C \<or> c = CHR 0x1D \<or> c = CHR 0x1E \<or> c = CHR 0x1F
      \<or> c = CHR 0x85 \<or> c = CHR 0xA0)"

definition strip_truthy :: "string \<Rightarrow> bool" where
  "strip_truthy t = (filter (\<lambda>c. \<not> is_py_space c) t \<noteq> [])"

text \<open>The URL of both request functions; an organization id \<open>None\<close> prints as
  \<open>None\<close>.\<close>

definition local_dns_url :: "string option \<Rightarrow> string \<Rightarrow> string" where
  "local_dns_url oid endpoint =
     ''https://api.meraki.com/api/v1/organizations/'' @ fmt_opt oid
       @ ''/appliance/dns/local/'' @ endpoint"

text \<open>\<open>json.dumps(payload) if payload else None\<close>; the serialised text is represented by
  the value.\<close>

definition request_data :: "json option \<Rightarrow> json option" where
  "request_data payload =
     (case payload of None \<Rightarrow> None | Some j \<Rightarrow> if truthy j then Some j else None)"

text \<open>The \<open>try\<close> block of both request functions, after the call of
  \<open>requests.request\<close>: \<open>Inl\<close> is an exception on its way to the handlers; Python's
  \<open>None\<close> is \<open>JNull\<close>. The message of the decode error depends on the body; a fixed
  text stands for it.\<close>

definition read_response :: "exn + response \<Rightarrow> exn + json" where
  "read_response outcome =
     (case outcome of
        Inl err \<Rightarrow> Inl err
      | Inr r \<Rightarrow>
          (case raise_for_status r of
             Some err \<Rightarrow> Inl err
           | None \<Rightarrow>
               if strip_truthy (text_body r)
               then (case json_body r of
                       None \<Rightarrow> Inl (JSONDecodeError ''Expecting value'')
                     | Some j \<Rightarrow> Inr j)
               else Inr JNull))"

text \<open>The \<open>except\<close> clauses of both request functions, in the order of the source:
  \<open>HTTPError\<close>, \<open>ConnectionError\<close>, \<open>Timeout\<close>, \<open>RequestException\<close>, \<open>Exception\<close>.\<close>

fun request_error :: "exn \<Rightarrow> json" where
  "request_error (HTTPError resp msg) =
     (case resp of
        Some r \<Rightarrow>
          if response_bool r
          then error_record_status ''HTTPError'' (JStr (text_body r)) (JInt (status_code r))
          else error_record_status ''HTTPError'' (JStr ''No response text'') (JStr ''Unknown'')
      | None \<Rightarrow>
          error_record_status ''HTTPError'' (JStr ''No response text'') (JStr ''Unknown''))"
| "request_error (ConnectionError msg) = error_record ''ConnectionError'' (JStr msg)"
| "request_error (ConnectTimeout msg) = error_record ''ConnectionError'' (JStr msg)"
| "request_error (ReadTimeout msg) = error_record ''TimeoutError'' (JStr msg)"
| "request_error (Timeout msg) = error_record ''TimeoutError'' (JStr msg)"
| "request_error (JSONDecodeError msg) = error_record ''RequestException'' (JStr msg)"
| "request_error (RequestException msg) = error_record ''RequestException'' (JStr msg)"
| "request_error err = error_record ''UnexpectedError'' (JStr (exn_str err))"

section \<open>The module \<open>local_dns_logic\<close>\<close>

text \<open>The module's global variables; \<open>log\<close> records the calls issued, as \<open>api_log\<close>
  does for the wrapper.\<close>

record globals =
  API_KEY :: "string option"
  ORGANIZATION_ID :: "string option"
  ORGANIZATION_NAME :: "string option"
  dashboard_g :: bool
  organizations_cache_g :: "json list option"
  networks_cache_g :: "string \<rightharpoonup> json list"
  log :: "api_call list"

text \<open>\<open>make_request\<close> of \<open>local_dns_logic\<close>.\<close>

definition make_request ::
  "env \<Rightarrow> string \<Rightarrow> string \<Rightarrow> json option \<Rightarrow> globals \<Rightarrow> json \<times> globals" where
  "make_request e method endpoint payload g =
     (if \<not> str_truthy (ORGANIZATION_ID g)
      then (error_record ''NoOrganizationSelected''
              (JStr ''Please select an organization first.''), g)
      else
        (let url = local_dns_url (ORGANIZATION_ID g) endpoint;
             data = request_data payload;
             g1 = g\<lparr>log := log g @ [CallHttp method url data]\<rparr>
         in case read_response (request e method url data) of
              Inr response_json \<Rightarrow> (response_json, g1)
            | Inl err \<Rightarrow> (request_error err, g1)))"

text \<open>\<open>_get_dashboard\<close>: the singleton client is built from \<open>API_KEY\<close> on first use; a
  failing constructor is re-raised.\<close>

definition get_dashboard_ldl :: "env \<Rightarrow> globals \<Rightarrow> (exn + unit) \<times> globals" where
  "get_dashboard_ldl e g =
     (if \<not> dashboard_g g
      then (case DashboardAPI e (API_KEY g) of
              Some err \<Rightarrow> (Inl err, g)
            | None \<Rightarrow> (Inr (), g\<lparr>dashboard_g := True\<rparr>))
      else (Inr (), g))"

text \<open>\<open>_get_networks\<close> of the module: the networks of \<open>ORGANIZATION_ID\<close>, always through
  the cache.\<close>

definition get_networks_ldl :: "env \<Rightarrow> globals \<Rightarrow> (exn + json) \<times> globals" where
  "get_networks_ldl e g =
     (if \<not> str_truthy (ORGANIZATION_ID g)
      then (Inr (error_record ''NoOrganizationSelected''
                   (JStr ''Please select an organization first.'')), g)
      else
        (let oid = fmt_opt (ORGANIZATION_ID g)
         in case networks_cache_g g oid of
              Some cached \<Rightarrow> (Inr (JArr cached), g)
            | None \<Rightarrow>
                (case get_dashboard_ldl e g of
                   (Inl err, g1) \<Rightarrow> (Inl err, g1)
                 | (Inr u, g1) \<Rightarrow>
                     (let g2 = g1\<lparr>log := log g1 @ [CallGetOrganizationNetworks oid]\<rparr>
                      in case getOrganizationNetworks e oid of
                           Inr fetched \<Rightarrow>
                             (Inr (JArr fetched),
                              g2\<lparr>networks_cache_g := (networks_cache_g g2)(oid \<mapsto> fetched)\<rparr>)
                         | Inl err \<Rightarrow>
                             (Inr (fetch_error err),
                              g2\<lparr>networks_cache_g := (networks_cache_g g2)(oid \<mapsto> [])\<rparr>)))))"

text \<open>One display row of the module's \<open>list_networks\<close>.\<close>

definition format_network_ldl :: "json \<Rightarrow> exn + json" where
  "format_network_ldl network =
     and_then (py_get network ''id'' JNull) (\<lambda>v_id.
     and_then (py_get network ''name'' JNull) (\<lambda>v_name.
     and_then (py_get network ''type'' JNull) (\<lambda>v_type.
     and_then (py_get network ''timeZone'' JNull) (\<lambda>v_tz.
     and_then (py_get network ''tags'' (JArr [])) (\<lambda>tags.
     and_then (py_join '', '' tags) (\<lambda>v_tags.
       Inr (JObj [(''ID'', v_id), (''Name'', v_name), (''Type'', v_type),
                  (''Time Zone'', v_tz), (''Tags'', v_tags)])))))))"

definition list_networks_ldl :: "env \<Rightarrow> globals \<Rightarrow> (exn + json) \<times> globals" where
  "list_networks_ldl e g =
     (case get_networks_ldl e g of
        (Inl err, g1) \<Rightarrow> (Inl err, g1)
      | (Inr resp, g1) \<Rightarrow>
          if is_error resp then (Inr resp, g1)
          else if truthy resp
          then (case and_then (py_iter resp) (map_exn format_network_ldl) of
                  Inl err \<Rightarrow> (Inl err, g1)
                | Inr table_data \<Rightarrow> (Inr (JArr table_data), g1))
          else (Inr (JArr []), g1))"

text \<open>One display row of \<open>list_network_assignments\<close>, given the two name lookups.\<close>

definition assignment_row :: "pydict \<Rightarrow> pydict \<Rightarrow> json \<Rightarrow> exn + json" where
  "assignment_row network_map profile_map assignment =
     and_then (py_get assignment ''network'' (JObj [])) (\<lambda>network.
     and_then (py_get network ''id'' JNull) (\<lambda>v_network_id.
     and_then (py_get assignment ''profile'' (JObj [])) (\<lambda>profile.
     and_then (py_get profile ''id'' JNull) (\<lambda>v_profile_id.
     and_then (py_get assignment ''assignmentId'' JNull) (\<lambda>v_assignment_id.
     and_then (dict_get network_map v_network_id (JStr ''[unknown]'')) (\<lambda>v_network_name.
     and_then (dict_get profile_map v_profile_id (JStr ''[unknown]'')) (\<lambda>v_profile_name.
       Inr (JObj [(''Assignment ID'', v_assignment_id), (''Network ID'', v_network_id),
                  (''Network Name'', v_network_name), (''Profile ID'', v_profile_id),
                  (''Profile Name'', v_profile_name)]))))))))"

text \<open>The last part of \<open>list_network_assignments\<close>: the rows for the raw assignments
  response.\<close>

definition assignment_rows :: "pydict \<Rightarrow> pydict \<Rightarrow> json \<Rightarrow> exn + json" where
  "assignment_rows network_map profile_map assignments_response =
     (if truthy assignments_response
      then and_then (py_contains ''items'' assignments_response) (\<lambda>has_items.
             if has_items
             then and_then (py_getitem assignments_response ''items'') (\<lambda>items.
                  and_then (py_iter items) (\<lambda>xs.
                  and_then (map_exn (assignment_row network_map profile_map) xs) (\<lambda>table_data.
                    Inr (JArr table_data))))
             else Inr (JArr []))
      else Inr (JArr []))"

text \<open>The \<open>try\<close> block of \<open>list_network_assignments\<close>.\<close>

definition list_network_assignments_try :: "env \<Rightarrow> globals \<Rightarrow> (exn + json) \<times> globals" where
  "list_network_assignments_try e g =
     (case get_networks_ldl e g of
        (Inl err, g1) \<Rightarrow> (Inl err, g1)
      | (Inr networks_response, g1) \<Rightarrow>
          if is_error networks_response then (Inr networks_response, g1)
          else
            (case and_then (py_iter networks_response)
                    (\<lambda>nets. dict_of_items ''id'' ''name'' nets Map.empty) of
               Inl err \<Rightarrow> (Inl err, g1)
             | Inr network_map \<Rightarrow>
                 (case make_request e ''GET'' ''profiles'' None g1 of
                    (profiles_response, g2) \<Rightarrow>
                      if is_error profiles_response then (Inr profiles_response, g2)
                      else
                        (case and_then
                                (if truthy profiles_response
                                 then py_get profiles_response ''items'' (JArr [])
                                 else Inr (JArr []))
                                (\<lambda>profiles. and_then (py_iter profiles)
                                   (\<lambda>ps. dict_of_items ''profileId'' ''name'' ps Map.empty)) of
                           Inl err \<Rightarrow> (Inl err, g2)
                         | Inr profile_map \<Rightarrow>
                             (case make_request e ''GET'' ''profiles/assignments'' None g2 of
                                (assignments_response, g3) \<Rightarrow>
                                  if is_error assignments_response
                                  then (Inr assignments_response, g3)
                                  else (assignment_rows network_map profile_map
                                          assignments_response, g3))))))"

text \<open>The \<open>except Exception\<close> clause of the two joining list operations.\<close>

definition unexpected_error :: "(exn + json) \<times> globals \<Rightarrow> json \<times> globals" where
  "unexpected_error r =
     (case r of
        (Inl err, g) \<Rightarrow> (error_record ''UnexpectedError'' (JStr (exn_str err)), g)
      | (Inr v, g) \<Rightarrow> (v, g))"

definition list_network_assignments :: "env \<Rightarrow> globals \<Rightarrow> json \<times> globals" where
  "list_network_assignments e g = unexpected_error (list_network_assignments_try e g)"

text \<open>The loop of \<open>list_profiles\<close> that maps a profile id to its network: an assignment
  row counts only when both its profile id and its network id are truthy; a later row
  replaces an earlier one for the same profile.\<close>

fun profile_to_network_of :: "pydict \<Rightarrow> json list \<Rightarrow> pydict \<Rightarrow> exn + pydict" where
  "profile_to_network_of network_map [] m = Inr m"
| "profile_to_network_of network_map (assignment # rest) m =
     (case py_get assignment ''Profile ID'' JNull of
        Inl err \<Rightarrow> Inl err
      | Inr v_profile_id \<Rightarrow>
          (case py_get assignment ''Network ID'' JNull of
             Inl err \<Rightarrow> Inl err
           | Inr v_network_id \<Rightarrow>
               if truthy v_profile_id \<and> truthy v_network_id
               then (case dict_get network_map v_network_id (JStr ''[unknown]'') of
                       Inl err \<Rightarrow> Inl err
                     | Inr v_network_name \<Rightarrow>
                         (case dict_set m v_profile_id
                                 (JObj [(''Network ID'', v_network_id),
                                        (''Network Name'', v_network_name)]) of
                            Inl err \<Rightarrow> Inl err
                          | Inr m1 \<Rightarrow> profile_to_network_of network_map rest m1))
               else profile_to_network_of network_map rest m))"

text \<open>One display row of \<open>list_profiles\<close>.\<close>

definition profile_row :: "pydict \<Rightarrow> json \<Rightarrow> exn + json" where
  "profile_row profile_to_network profile =
     and_then (py_get profile ''profileId'' JNull) (\<lambda>v_profile_id.
     and_then (py_get profile ''name'' JNull) (\<lambda>v_profile_name.
     and_then (dict_contains profile_to_network v_profile_id) (\<lambda>assigned.
       if assigned
       then (case profile_to_network (py_key v_profile_id) of
               None \<Rightarrow> Inl (KeyError ''profile id'')
             | Some network_info \<Rightarrow>
                 and_then (py_get network_info ''Network ID'' JNull) (\<lambda>v_network_id.
                 and_then (py_get network_info ''Network Name'' JNull) (\<lambda>v_network_name.
                   Inr (JObj [(''Profile ID'', v_profile_id), (''Name'', v_profile_name),
                              (''Network ID'', v_network_id),
                              (''Network Name'', v_network_name)]))))
       else Inr (JObj [(''Profile ID'', v_profile_id), (''Name'', v_profile_name),
                       (''Network ID'', JStr ''[unassigned]''),
                       (''Network Name'', JStr ''[unassigned]'')]))))"

text \<open>The join of \<open>list_profiles\<close>, from the network map to the table: the raw profiles,
  the assignment rows and the network rows are given.\<close>

definition profiles_table :: "json \<Rightarrow> json \<Rightarrow> json \<Rightarrow> exn + json" where
  "profiles_table profiles_data assignments networks =
     and_then (if truthy networks
               then and_then (py_iter networks) (\<lambda>nets. dict_of_items ''ID'' ''Name'' nets Map.empty)
               else Inr Map.empty) (\<lambda>network_map.
     and_then (py_iter assignments) (\<lambda>rows.
     and_then (profile_to_network_of network_map rows Map.empty) (\<lambda>profile_to_network.
     and_then (py_iter profiles_data) (\<lambda>profiles.
     and_then (map_exn (profile_row profile_to_network) profiles) (\<lambda>table_data.
       Inr (JArr table_data))))))"

text \<open>The \<open>try\<close> block of \<open>list_profiles\<close>.\<close>

definition list_profiles_try :: "env \<Rightarrow> globals \<Rightarrow> (exn + json) \<times> globals" where
  "list_profiles_try e g =
     (case make_request e ''GET'' ''profiles'' None g of
        (profiles_response, g1) \<Rightarrow>
          if is_error profiles_response then (Inr profiles_response, g1)
          else if \<not> truthy profiles_response then (Inr (JArr []), g1)
          else
            (case py_contains ''items'' profiles_response of
               Inl err \<Rightarrow> (Inl err, g1)
             | Inr False \<Rightarrow> (Inr (JArr []), g1)
             | Inr True \<Rightarrow>
                 (case and_then (py_getitem profiles_response ''items'')
                         (\<lambda>d. and_then (py_len d) (\<lambda>n. Inr d)) of
                    Inl err \<Rightarrow> (Inl err, g1)
                  | Inr profiles_data \<Rightarrow>
                      (case list_network_assignments e g1 of
                         (assignments, g2) \<Rightarrow>
                           if is_error assignments then (Inr assignments, g2)
                           else
                             (case list_networks_ldl e g2 of
                                (Inl err, g3) \<Rightarrow> (Inl err, g3)
                              | (Inr networks, g3) \<Rightarrow>
                                  if is_error networks then (Inr networks, g3)
                                  else (profiles_table profiles_data
                                          (if truthy assignments then assignments else JArr [])
                                          networks, g3))))))"

definition list_profiles :: "env \<Rightarrow> globals \<Rightarrow> json \<times> globals" where
  "list_profiles e g = unexpected_error (list_profiles_try e g)"

text \<open>The operations with one request. \<open>Inl\<close> is an exception that leaves the operation:
  none of them has a \<open>try\<close>.\<close>

definition create_profile :: "env \<Rightarrow> string \<Rightarrow> globals \<Rightarrow> (exn + json) \<times> globals" where
  "create_profile e profile_name g =
     (case make_request e ''POST'' ''profiles'' (Some (JObj [(''name'', JStr profile_name)])) g of
        (response, g1) \<Rightarrow>
          if is_error response then (Inr response, g1)
          else (and_then (py_get response ''profileId'' JNull) (\<lambda>v_profile_id.
                and_then (py_get response ''name'' JNull) (\<lambda>v_name.
                  Inr (JObj [(''Profile ID'', v_profile_id), (''Name'', v_name)]))), g1))"

definition delete_profile :: "env \<Rightarrow> string \<Rightarrow> globals \<Rightarrow> (exn + json) \<times> globals" where
  "delete_profile e profile_id g =
     (case make_request e ''DELETE'' (''profiles/'' @ profile_id) None g of
        (response, g1) \<Rightarrow> (Inr response, g1))"

definition create_dns_record ::
  "env \<Rightarrow> string \<Rightarrow> string \<Rightarrow> string \<Rightarrow> globals \<Rightarrow> (exn + json) \<times> globals" where
  "create_dns_record e profile_id hostname address g =
     (case make_request e ''POST'' ''records''
             (Some (JObj [(''hostname'', JStr hostname), (''address'', JStr address),
                          (''profile'', JObj [(''id'', JStr profile_id)])])) g of
        (response, g1) \<Rightarrow>
          if is_error response then (Inr response, g1)
          else (and_then (py_get response ''recordId'' JNull) (\<lambda>record_id. Inr response), g1))"

definition format_dns_record :: "json \<Rightarrow> exn + json" where
  "format_dns_record record =
     and_then (py_get record ''recordId'' JNull) (\<lambda>v_record_id.
     and_then (py_get record ''hostname'' JNull) (\<lambda>v_hostname.
     and_then (py_get record ''address'' JNull) (\<lambda>v_address.
     and_then (py_get record ''profile'' (JObj [])) (\<lambda>profile.
     and_then (py_get profile ''id'' JNull) (\<lambda>v_profile_id.
       Inr (JObj [(''Record ID'', v_record_id), (''Hostname'', v_hostname),
                  (''Address'', v_address), (''Profile ID'', v_profile_id)]))))))"

definition list_dns_records :: "env \<Rightarrow> globals \<Rightarrow> (exn + json) \<times> globals" where
  "list_dns_records e g =
     (case make_request e ''GET'' ''records'' None g of
        (response, g1) \<Rightarrow>
          if is_error response then (Inr response, g1)
          else if truthy response
          then (and_then (py_contains ''items'' response) (\<lambda>has_items.
                  if has_items
                  then and_then (py_getitem response ''items'') (\<lambda>items.
                       and_then (py_iter items) (\<lambda>xs.
                       and_then (map_exn format_dns_record xs) (\<lambda>table_data.
                         Inr (JArr table_data))))
                  else Inr (JArr [])), g1)
          else (Inr (JArr []), g1))"

definition delete_dns_record :: "env \<Rightarrow> string \<Rightarrow> globals \<Rightarrow> (exn + json) \<times> globals" where
  "delete_dns_record e record_id g =
     (case make_request e ''DELETE'' (''records/'' @ record_id) None g of
        (response, g1) \<Rightarrow> (Inr response, g1))"

definition assign_profile_to_network ::
  "env \<Rightarrow> string \<Rightarrow> string \<Rightarrow> globals \<Rightarrow> (exn + json) \<times> globals" where
  "assign_profile_to_network e v_network_id profile_id g =
     (case make_request e ''POST'' ''profiles/assignments/bulkCreate''
             (Some (JObj [(''items'',
                JArr [JObj [(''network'', JObj [(''id'', JStr v_network_id)]),
                            (''profile'', JObj [(''id'', JStr profile_id)])]])])) g of
        (response, g1) \<Rightarrow> (Inr response, g1))"

definition remove_network_assignment ::
  "env \<Rightarrow> string \<Rightarrow> globals \<Rightarrow> (exn + json) \<times> globals" where
  "remove_network_assignment e assignment_id g =
     (case make_request e ''POST'' ''profiles/assignments/bulkDelete''
             (Some (JObj [(''items'', JArr [JObj [(''assignmentId'', JStr assignment_id)]])])) g of
        (response, g1) \<Rightarrow> (Inr response, g1))"

section \<open>The class \<open>ProjectLogic\<close>\<close>

text \<open>\<open>ProjectLogic._make_request\<close>; the instance holds the wrapper \<open>_api_utils\<close>.\<close>

definition make_request_pl ::
  "env \<Rightarrow> string \<Rightarrow> string \<Rightarrow> json option \<Rightarrow> wrapper \<Rightarrow> json \<times> wrapper" where
  "make_request_pl e method endpoint payload s =
     (let url = local_dns_url (organization_id s) endpoint;
          data = request_data payload;
          s1 = s\<lparr>api_log := api_log s @ [CallHttp method url data]\<rparr>
      in case read_response (request e method url data) of
           Inr response_json \<Rightarrow> (response_json, s1)
         | Inl err \<Rightarrow> (request_error err, s1))"

text \<open>\<open>ProjectLogic.create_profile\<close>.\<close>

definition create_profile_pl :: "env \<Rightarrow> string \<Rightarrow> wrapper \<Rightarrow> (exn + json) \<times> wrapper" where
  "create_profile_pl e profile_name s =
     (case make_request_pl e ''POST'' ''profiles'' (Some (JObj [(''name'', JStr profile_name)])) s of
        (response, s1) \<Rightarrow>
          if is_error response then (Inr response, s1)
          else (and_then (py_get response ''profileId'' JNull) (\<lambda>v_profile_id.
                and_then (py_get response ''name'' JNull) (\<lambda>v_name.
                  Inr (JObj [(''profile id'', v_profile_id), (''name'', v_name)]))), s1))"

section \<open>The data model of the profile listing\<close>

text \<open>
  The entities of the vendor API as the specification's data model has them, with string
  fields, and the JSON objects the vendor sends for them.
\<close>

record profile =
  p_id :: string
  p_name :: string

record assignment =
  a_id :: string
  a_network :: string
  a_profile :: string

record network =
  n_id :: string
  n_name :: string
  n_type :: string
  n_time_zone :: string
  n_tags :: "string list"

definition profile_json :: "profile \<Rightarrow> json" where
  "profile_json p = JObj [(''profileId'', JStr (p_id p)), (''name'', JStr (p_name p))]"

definition assignment_json :: "assignment \<Rightarrow> json" where
  "assignment_json a =
     JObj [(''assignmentId'', JStr (a_id a)),
           (''network'', JObj [(''id'', JStr (a_network a))]),
           (''profile'', JObj [(''id'', JStr (a_profile a))])]"

definition network_json :: "network \<Rightarrow> json" where
  "network_json n =
     JObj [(''id'', JStr (n_id n)), (''name'', JStr (n_name n)), (''type'', JStr (n_type n)),
           (''timeZone'', JStr (n_time_zone n)), (''tags'', JArr (map JStr (n_tags n)))]"

definition items_json :: "json list \<Rightarrow> json" where
  "items_json xs = JObj [(''items'', JArr xs)]"

text \<open>
  The enriched listing in the specification's words, not taken from the code. The name of
  a network id is the name of the last network of the list with that id. The network
  assigned to a profile is the network of the last assignment for that profile among the
  assignments whose profile id and network id are both non-empty. A profile with an assigned
  network shows that network's id and its name, or \<open>[unknown]\<close> when the id is not in the
  network list; a profile without one shows \<open>[unassigned]\<close> twice.
\<close>

definition spec_network_name :: "network list \<Rightarrow> string \<Rightarrow> string option" where
  "spec_network_name ns nid = map_of (rev (map (\<lambda>n. (n_id n, n_name n)) ns)) nid"

definition spec_assigned_network :: "assignment list \<Rightarrow> string \<Rightarrow> string option" where
  "spec_assigned_network as pid =
     map_of (rev (map (\<lambda>a. (a_profile a, a_network a))
                   (filter (\<lambda>a. a_profile a \<noteq> [] \<and> a_network a \<noteq> []) as))) pid"

definition spec_enriched_profile :: "assignment list \<Rightarrow> network list \<Rightarrow> profile \<Rightarrow> json" where
  "spec_enriched_profile as ns p =
     (case spec_assigned_network as (p_id p) of
        None \<Rightarrow>
          JObj [(''Profile ID'', JStr (p_id p)), (''Name'', JStr (p_name p)),
                (''Network ID'', JStr ''[unassigned]''),
                (''Network Name'', JStr ''[unassigned]'')]
      | Some nid \<Rightarrow>
          JObj [(''Profile ID'', JStr (p_id p)), (''Name'', JStr (p_name p)),
                (''Network ID'', JStr nid),
                (''Network Name'',
                 JStr (case spec_network_name ns nid of
                         None \<Rightarrow> ''[unknown]'' | Some nm \<Rightarrow> nm))])"

text \<open>The display rows of the network listing and of the assignment listing, in the
  specification's words: an assignment shows the names of its network and of its profile, or
  \<open>[unknown]\<close> for an id that is in neither list.\<close>

definition spec_network_row :: "network \<Rightarrow> json" where
  "spec_network_row n =
     JObj [(''ID'', JStr (n_id n)), (''Name'', JStr (n_name n)), (''Type'', JStr (n_type n)),
           (''Time Zone'', JStr (n_time_zone n)), (''Tags'', JStr (join_strs '', '' (n_tags n)))]"

definition spec_profile_name :: "profile list \<Rightarrow> string \<Rightarrow> string option" where
  "spec_profile_name ps pid = map_of (rev (map (\<lambda>p. (p_id p, p_name p)) ps)) pid"

definition spec_enriched_assignment :: "network list \<Rightarrow> profile list \<Rightarrow> assignment \<Rightarrow> json" where
  "spec_enriched_assignment ns ps a =
     JObj [(''Assignment ID'', JStr (a_id a)), (''Network ID'', JStr (a_network a)),
           (''Network Name'',
            JStr (case spec_network_name ns (a_network a) of
                    None \<Rightarrow> ''[unknown]'' | Some nm \<Rightarrow> nm)),
           (''Profile ID'', JStr (a_profile a)),
           (''Profile Name'',
            JStr (case spec_profile_name ps (a_profile a) of
                    None \<Rightarrow> ''[unknown]'' | Some nm \<Rightarrow> nm))]"

section \<open>Concrete environments and instances\<close>

text \<open>An environment with no \<open>MK_CSM_KEY\<close>, a constructor that succeeds, empty
  listings and no route to the vendor's HTTP API; and the instances \<open>MerakiAPIWrapper()\<close> and
  \<open>MerakiAPIWrapper("secret", enable_caching=True)\<close> built in it.\<close>

definition quiet_env :: env where
  "quiet_env = \<lparr>getenv_MK_CSM_KEY = None, DashboardAPI = (\<lambda>k. None),
                getOrganizations = Inr [], getOrganizationNetworks = (\<lambda>oid. Inr []),
                request = (\<lambda>method url data. Inl (ConnectionError ''unreachable''))\<rparr>"

definition blank_wrapper :: wrapper where
  "blank_wrapper = snd (new_wrapper quiet_env None False)"

definition keyed_wrapper :: wrapper where
  "keyed_wrapper = snd (new_wrapper quiet_env (Some ''secret'') True)"

text \<open>An environment whose SDK calls fail: the organization listing with an API error
  of status 500, every network listing with a connection failure of the SDK.\<close>

definition failing_env :: env where
  "failing_env = \<lparr>getenv_MK_CSM_KEY = None, DashboardAPI = (\<lambda>k. None),
                  getOrganizations = Inl (APIError (JInt 500) (JStr ''Internal Server Error'')),
                  getOrganizationNetworks = (\<lambda>oid. Inl (OtherException ''connection reset'')),
                  request = (\<lambda>method url data. Inl (ConnectionError ''unreachable''))\<rparr>"

text \<open>The vendor answers every request with status 404 and the body \<open>Not found\<close>; or
  with status 204 and an empty body.\<close>

definition not_found_env :: env where
  "not_found_env = quiet_env\<lparr>request := (\<lambda>method url data.
      Inr \<lparr>status_code = 404, text_body = ''Not found'', json_body = None\<rparr>)\<rparr>"

definition no_content_env :: env where
  "no_content_env = quiet_env\<lparr>request := (\<lambda>method url data.
      Inr \<lparr>status_code = 204, text_body = [], json_body = None\<rparr>)\<rparr>"

text \<open>The module's globals after import, and after \<open>set_api_key("secret")\<close> and
  \<open>set_organization_id("o1")\<close>.\<close>

definition fresh_globals :: globals where
  "fresh_globals = \<lparr>API_KEY = None, ORGANIZATION_ID = None, ORGANIZATION_NAME = None,
                    dashboard_g = False, organizations_cache_g = None,
                    networks_cache_g = Map.empty, log = []\<rparr>"

definition selected_globals :: globals where
  "selected_globals = fresh_globals\<lparr>API_KEY := Some ''secret'', ORGANIZATION_ID := Some ''o1''\<rparr>"

text \<open>
  A vendor that knows the organization \<open>o1\<close> with the given profiles, assignments and
  networks, and answers the two \<open>GET\<close> requests of the profile listing with them.
\<close>

definition json_response :: "json \<Rightarrow> response" where
  "json_response j = \<lparr>status_code = 200, text_body = ''{...}'', json_body = Some j\<rparr>"

definition vendor_env :: "profile list \<Rightarrow> assignment list \<Rightarrow> network list \<Rightarrow> env" where
  "vendor_env ps as ns =
     \<lparr>getenv_MK_CSM_KEY = None, DashboardAPI = (\<lambda>k. None), getOrganizations = Inr [],
      getOrganizationNetworks = (\<lambda>oid. Inr (map network_json ns)),
      request = (\<lambda>method url data.
        if method = ''GET'' \<and> url = local_dns_url (Some ''o1'') ''profiles''
        then Inr (json_response (items_json (map profile_json ps)))
        else if method = ''GET'' \<and> url = local_dns_url (Some ''o1'') ''profiles/assignments''
        then Inr (json_response (items_json (map assignment_json as)))
        else Inl (ConnectionError ''unreachable''))\<rparr>"

definition profile_p1 :: profile where
  "profile_p1 = \<lparr>p_id = ''p1'', p_name = ''Office''\<rparr>"

definition network_n1 :: network where
  "network_n1 = \<lparr>n_id = ''n1'', n_name = ''Net1'', n_type = ''appliance'',
                  n_time_zone = ''UTC'', n_tags = []\<rparr>"

definition assignment_p1_n1 :: assignment where
  "assignment_p1_n1 = \<lparr>a_id = ''a1'', a_network = ''n1'', a_profile = ''p1''\<rparr>"

definition assignment_p1_no_network :: assignment where
  "assignment_p1_no_network = \<lparr>a_id = ''a1'', a_network = [], a_profile = ''p1''\<rparr>"

section \<open>Properties\<close>

subsection \<open>Credential and scope state\<close>

lemma is_set_truthy:
  "is_api_key_set s = str_truthy (api_key s)"
  "is_organization_id_set s = str_truthy (organization_id s)"
  "is_network_id_set s = str_truthy (network_id s)"
  by (cases "api_key s"; cases "organization_id s"; cases "network_id s";
      simp add: is_api_key_set_def is_organization_id_set_def is_network_id_set_def)+

lemma blank_wrapper_eq:
  "blank_wrapper = \<lparr>api_key = None, organization_id = None, organization_name = None,
        network_id = None, network_name = None, enable_caching = False,
        dashboard = None, organizations_cache = None, networks_cache = None,
        required_app_setup_param = Map.empty, api_log = []\<rparr>"
  by (simp add: blank_wrapper_def new_wrapper_def set_api_key_def quiet_env_def)

lemma keyed_wrapper_eq:
  "keyed_wrapper = \<lparr>api_key = Some ''secret'', organization_id = None, organization_name = None,
        network_id = None, network_name = None, enable_caching = True,
        dashboard = Some ''secret'', organizations_cache = None, networks_cache = None,
        required_app_setup_param = Map.empty, api_log = []\<rparr>"
  by (simp add: keyed_wrapper_def new_wrapper_def set_api_key_def quiet_env_def)

lemma get_dashboard_fields:
  "organization_id (snd (get_dashboard e s)) = organization_id s"
  "network_id (snd (get_dashboard e s)) = network_id s"
  "api_key (snd (get_dashboard e s)) = api_key s"
  "enable_caching (snd (get_dashboard e s)) = enable_caching s"
  "organizations_cache (snd (get_dashboard e s)) = organizations_cache s"
  "networks_cache (snd (get_dashboard e s)) = networks_cache s"
  "api_log (snd (get_dashboard e s)) = api_log s"
  by (simp_all add: get_dashboard_def split: option.splits)

lemma get_organizations_fields:
  "organization_id (snd (get_organizations e c s)) = organization_id s"
  "network_id (snd (get_organizations e c s)) = network_id s"
  "api_key (snd (get_organizations e c s)) = api_key s"
proof -
  obtain r s1 where gd: "get_dashboard e s = (r, s1)" by force
  have f: "organization_id s1 = organization_id s" "network_id s1 = network_id s"
          "api_key s1 = api_key s"
    using get_dashboard_fields [of e s] gd by simp_all
  show "organization_id (snd (get_organizations e c s)) = organization_id s"
       "network_id (snd (get_organizations e c s)) = network_id s"
       "api_key (snd (get_organizations e c s)) = api_key s"
    by (simp_all add: get_organizations_def Let_def gd f split: option.splits sum.splits)
qed

lemma get_networks_fields:
  "organization_id (snd (get_networks e i c s)) = organization_id s"
  "network_id (snd (get_networks e i c s)) = network_id s"
  "api_key (snd (get_networks e i c s)) = api_key s"
proof -
  define s0 where "s0 = (if networks_cache s = None then s\<lparr>networks_cache := Some Map.empty\<rparr> else s)"
  obtain r s1 where gd: "get_dashboard e s0 = (r, s1)" by force
  have f: "organization_id s1 = organization_id s" "network_id s1 = network_id s"
          "api_key s1 = api_key s"
          "organization_id s0 = organization_id s" "network_id s0 = network_id s"
          "api_key s0 = api_key s"
    using get_dashboard_fields [of e s0] gd by (simp_all add: s0_def)
  show "organization_id (snd (get_networks e i c s)) = organization_id s"
       "network_id (snd (get_networks e i c s)) = network_id s"
       "api_key (snd (get_networks e i c s)) = api_key s"
    by (simp_all add: get_networks_def Let_def s0_def [symmetric] gd f
                 split: option.splits sum.splits)
qed

lemma list_organizations_state: "snd (list_organizations e c s) = snd (get_organizations e c s)"
  by (simp add: list_organizations_def split: prod.splits sum.splits json.splits)

lemma list_networks_state: "snd (list_networks e i c s) = snd (get_networks e i c s)"
  by (simp add: list_networks_def split: prod.splits sum.splits json.splits)

lemma set_api_key_fields:
  "organization_id (snd (set_api_key e k s)) = organization_id s"
  "organization_name (snd (set_api_key e k s)) = organization_name s"
  "network_id (snd (set_api_key e k s)) = network_id s"
  "network_name (snd (set_api_key e k s)) = network_name s"
  "api_key (snd (set_api_key e k s)) =
     (if str_truthy k then k
      else if str_truthy (getenv_MK_CSM_KEY e) then getenv_MK_CSM_KEY e else None)"
  by (simp_all add: set_api_key_def Let_def split: option.splits)

lemma api_key_stage_fields:
  assumes "setup_api_key_stage e rp eff s = (r, s1)"
  shows "organization_id s1 = organization_id s" "organization_name s1 = organization_name s"
        "network_id s1 = network_id s" "network_name s1 = network_name s"
        "api_key s1 = (if required rp ''api_key''
                       then (if str_truthy (eff ''api_key'') then eff ''api_key''
                             else if str_truthy (getenv_MK_CSM_KEY e) then getenv_MK_CSM_KEY e
                             else None)
                       else api_key s)"
        "r = Inr True \<Longrightarrow> required rp ''api_key'' \<Longrightarrow> str_truthy (api_key s1)"
        "r = Inr False \<Longrightarrow> required rp ''api_key'' \<and> \<not> str_truthy (api_key s1)"
  using assms set_api_key_fields [of e "eff ''api_key''" s]
  by (auto simp: setup_api_key_stage_def is_set_truthy split: if_splits prod.splits sum.splits)

lemma organization_stage_fields:
  assumes "setup_organization_stage rp eff s = (b, s1)"
  shows "api_key s1 = api_key s" "network_id s1 = network_id s" "network_name s1 = network_name s"
        "b \<Longrightarrow> required rp ''organization_id'' \<Longrightarrow>
           organization_id s1 = eff ''organization_id'' \<and> str_truthy (eff ''organization_id'')"
        "b \<Longrightarrow> \<not> required rp ''organization_id'' \<Longrightarrow> s1 = s"
        "\<not> b \<Longrightarrow> s1 = s \<and> required rp ''organization_id''
                 \<and> (\<not> str_truthy (api_key s) \<or> \<not> str_truthy (eff ''organization_id''))"
        "b \<Longrightarrow> required rp ''organization_id'' \<Longrightarrow>
           organization_name s1 = (if str_truthy (eff ''org_name'') then eff ''org_name''
                                   else organization_name s)"
  using assms
  by (auto simp: setup_organization_stage_def set_organization_id_def is_set_truthy Let_def
           split: if_splits)

lemma network_stage_fields:
  assumes "setup_network_stage rp eff s = (b, s1)"
  shows "api_key s1 = api_key s" "organization_id s1 = organization_id s"
        "organization_name s1 = organization_name s"
        "b \<Longrightarrow> required rp ''network_id'' \<Longrightarrow>
           network_id s1 = eff ''network_id'' \<and> str_truthy (eff ''network_id'')"
        "b \<Longrightarrow> \<not> required rp ''network_id'' \<Longrightarrow> s1 = s"
        "\<not> b \<Longrightarrow> s1 = s \<and> required rp ''network_id''"
  using assms
  by (auto simp: setup_network_stage_def set_network_id_def is_set_truthy Let_def
           split: if_splits)

lemma setup_fields:
  "str_truthy (organization_id s) \<Longrightarrow>
     str_truthy (organization_id (snd (setup_application_parameters e rp p c s)))"
  "str_truthy (network_id s) \<Longrightarrow>
     str_truthy (network_id (snd (setup_application_parameters e rp p c s)))"
  "api_key (snd (setup_application_parameters e rp p c s)) =
     (if check_required_parameter_order rp \<and> required rp ''api_key''
      then (let k = (case p of None \<Rightarrow> Map.empty | Some m \<Rightarrow> m) ''api_key''
            in if str_truthy k then k
               else if str_truthy (getenv_MK_CSM_KEY e) then getenv_MK_CSM_KEY e else None)
      else api_key s)"
proof -
  define eff where "eff = (case p of None \<Rightarrow> Map.empty | Some m \<Rightarrow> m)"
  define sc where "sc = (case c of None \<Rightarrow> s | Some b \<Rightarrow> s\<lparr>enable_caching := b\<rparr>)"
  define s0 where "s0 = sc\<lparr>required_app_setup_param := rp\<rparr>"
  have f0: "network_id s0 = network_id s" "organization_id s0 = organization_id s"
           "api_key s0 = api_key s" "network_id sc = network_id s"
           "organization_id sc = organization_id s" "api_key sc = api_key s"
    by (simp_all add: s0_def sc_def split: option.splits)
  obtain r1 s1 where st1: "setup_api_key_stage e rp eff s0 = (r1, s1)" by force
  obtain b2 s2 where st2: "setup_organization_stage rp eff s1 = (b2, s2)" by force
  obtain b3 s3 where st3: "setup_network_stage rp eff s2 = (b3, s3)" by force
  note a = api_key_stage_fields [OF st1]
  note b = organization_stage_fields [OF st2]
  note n = network_stage_fields [OF st3]
  have res: "snd (setup_application_parameters e rp p c s) =
               (if \<not> check_required_parameter_order rp then sc
                else case r1 of Inl err \<Rightarrow> s1 | Inr False \<Rightarrow> s1
                     | Inr True \<Rightarrow> (if b2 then s3 else s2))"
    by (simp add: setup_application_parameters_def Let_def sc_def [symmetric] s0_def [symmetric]
                  eff_def [symmetric] st1 st2 st3 split: sum.splits bool.splits)
  have org2: "str_truthy (organization_id s1) \<Longrightarrow> str_truthy (organization_id s2)"
    using b by (cases b2; cases "required rp ''organization_id''") auto
  have net3: "str_truthy (network_id s2) \<Longrightarrow> str_truthy (network_id s3)"
    using n by (cases b3; cases "required rp ''network_id''") auto
  show "str_truthy (organization_id s) \<Longrightarrow>
     str_truthy (organization_id (snd (setup_application_parameters e rp p c s)))"
    using res f0 a(1) org2 n(2) by (auto split: sum.splits bool.splits)
  show "str_truthy (network_id s) \<Longrightarrow>
     str_truthy (network_id (snd (setup_application_parameters e rp p c s)))"
    using res f0 a(3) b(2) net3 by (auto split: sum.splits bool.splits)
  show "api_key (snd (setup_application_parameters e rp p c s)) =
     (if check_required_parameter_order rp \<and> required rp ''api_key''
      then (let k = (case p of None \<Rightarrow> Map.empty | Some m \<Rightarrow> m) ''api_key''
            in if str_truthy k then k
               else if str_truthy (getenv_MK_CSM_KEY e) then getenv_MK_CSM_KEY e else None)
      else api_key s)"
    using res f0 a(5) b(1) n(1) by (auto simp: eff_def Let_def split: sum.splits bool.splits)
qed

text \<open>
  Claim C6, as amended. Every operation of a wrapper instance keeps a set organization id set
  and a set network id set. The credential is different: an operation moves it from set to
  unset exactly when it is a credential reset, that is \<open>set_api_key\<close> called (directly, or
  by \<open>setup_application_parameters\<close> with \<open>api_key\<close> required) with an empty value while
  \<open>MK_CSM_KEY\<close> is empty or absent.
\<close>

theorem scope_field_transitions:
  "(is_organization_id_set s \<longrightarrow> is_organization_id_set (run_op e op s))
   \<and> (is_network_id_set s \<longrightarrow> is_network_id_set (run_op e op s))
   \<and> (is_api_key_set s \<longrightarrow>
        (\<not> is_api_key_set (run_op e op s)) = clears_credential e op)"
proof (cases op)
  case (OpSetApiKey k)
  then show ?thesis using set_api_key_fields [of e k s]
    by (auto simp: is_set_truthy)
next
  case (OpSetOrganizationId i n)
  then show ?thesis by (auto simp: is_set_truthy set_organization_id_def Let_def)
next
  case (OpSetNetworkId i n)
  then show ?thesis by (auto simp: is_set_truthy set_network_id_def Let_def)
next
  case OpGetDashboard
  then show ?thesis by (simp add: is_set_truthy get_dashboard_fields)
next
  case (OpGetOrganizations c)
  then show ?thesis by (simp add: is_set_truthy get_organizations_fields)
next
  case (OpGetNetworks i c)
  then show ?thesis by (simp add: is_set_truthy get_networks_fields)
next
  case (OpListOrganizations c)
  then show ?thesis by (simp add: is_set_truthy list_organizations_state get_organizations_fields)
next
  case (OpListNetworks i c)
  then show ?thesis by (simp add: is_set_truthy list_networks_state get_networks_fields)
next
  case (OpSetup rp p c)
  then show ?thesis using setup_fields [where s=s and e=e and rp=rp and p=p and c=c]
    by (auto simp: is_set_truthy Let_def split: if_splits)
qed

text \<open>
  Claim C6 as stated fails for the credential: on an instance built with the key
  \<open>secret\<close>, \<open>set_api_key(None)\<close> without \<open>MK_CSM_KEY\<close> stores \<open>None\<close>.
\<close>

theorem credential_reset_counterexample:
  "is_api_key_set keyed_wrapper \<and> \<not> is_api_key_set (run_op quiet_env (OpSetApiKey None) keyed_wrapper)"
  by (simp add: keyed_wrapper_eq is_api_key_set_def set_api_key_def quiet_env_def)

theorem scope_field_transitions_witness:
  "is_organization_id_set (set_organization_id (Some ''o1'') None keyed_wrapper)
   \<and> is_organization_id_set
       (run_op quiet_env (OpSetup Map.empty None None) (set_organization_id (Some ''o1'') None keyed_wrapper))
   \<and> is_api_key_set keyed_wrapper
   \<and> clears_credential quiet_env (OpSetup [''api_key'' \<mapsto> True] None None)
   \<and> \<not> is_api_key_set (run_op quiet_env (OpSetup [''api_key'' \<mapsto> True] None None) keyed_wrapper)"
  using scope_field_transitions [of "set_organization_id (Some ''o1'') None keyed_wrapper" quiet_env
          "OpSetup Map.empty None None"]
        scope_field_transitions [of keyed_wrapper quiet_env "OpSetup [''api_key'' \<mapsto> True] None None"]
  by (simp add: keyed_wrapper_eq is_api_key_set_def is_organization_id_set_def
        set_organization_id_def quiet_env_def required_def check_required_parameter_order_def)

text \<open>
  Claim C1. The order check answers \<open>True\<close> exactly when requiring the organization
  implies requiring the credential, and requiring the network implies requiring both the
  credential and the organization; whenever it answers \<open>False\<close>,
  \<open>setup_application_parameters\<close> returns \<open>False\<close>.
\<close>

theorem required_parameter_order:
  "check_required_parameter_order rp =
     ((required rp ''organization_id'' \<longrightarrow> required rp ''api_key'')
      \<and> (required rp ''network_id'' \<longrightarrow>
            required rp ''api_key'' \<and> required rp ''organization_id''))
   \<and> (\<not> check_required_parameter_order rp \<longrightarrow>
        fst (setup_application_parameters e rp p c s) = Inr False)"
  by (auto simp: check_required_parameter_order_def setup_application_parameters_def Let_def)

theorem required_parameter_order_witness:
  "required [''organization_id'' \<mapsto> True] ''organization_id''
   \<and> \<not> required [''organization_id'' \<mapsto> True] ''api_key''
   \<and> \<not> check_required_parameter_order [''organization_id'' \<mapsto> True]
   \<and> fst (setup_application_parameters quiet_env [''organization_id'' \<mapsto> True] None None
            blank_wrapper) = Inr False
   \<and> required [''api_key'' \<mapsto> True, ''organization_id'' \<mapsto> True] ''organization_id''
   \<and> check_required_parameter_order [''api_key'' \<mapsto> True, ''organization_id'' \<mapsto> True]"
  using required_parameter_order [of "[''organization_id'' \<mapsto> True]" quiet_env None None
          blank_wrapper]
        required_parameter_order [of "[''api_key'' \<mapsto> True, ''organization_id'' \<mapsto> True]"
          quiet_env None None blank_wrapper]
  by (simp add: required_def)

text \<open>
  Claim C10. \<open>set_organization_id\<close> with a non-empty id and no name writes the id and
  nothing else, so the stored name is the one of the previous selection; likewise
  \<open>set_network_id\<close>.
\<close>

theorem set_id_without_name:
  "(oid \<noteq> [] \<longrightarrow> set_organization_id (Some oid) None s = s\<lparr>organization_id := Some oid\<rparr>)
   \<and> (nid \<noteq> [] \<longrightarrow> set_network_id (Some nid) None t = t\<lparr>network_id := Some nid\<rparr>)"
  by (simp add: set_organization_id_def set_network_id_def)

theorem set_id_without_name_witness:
  "''o2'' \<noteq> [] \<and> ''n2'' \<noteq> []
   \<and> organization_id (set_organization_id (Some ''o2'') None
        (set_organization_id (Some ''o1'') (Some ''First'') blank_wrapper)) = Some ''o2''
   \<and> organization_name (set_organization_id (Some ''o2'') None
        (set_organization_id (Some ''o1'') (Some ''First'') blank_wrapper)) = Some ''First''
   \<and> network_id (set_network_id (Some ''n2'') None
        (set_network_id (Some ''n1'') (Some ''Lab'') blank_wrapper)) = Some ''n2''
   \<and> network_name (set_network_id (Some ''n2'') None
        (set_network_id (Some ''n1'') (Some ''Lab'') blank_wrapper)) = Some ''Lab''"
  using set_id_without_name [where oid = "''o2''" and nid = "''n2''"
          and s = "set_organization_id (Some ''o1'') (Some ''First'') blank_wrapper"
          and t = "set_network_id (Some ''n1'') (Some ''Lab'') blank_wrapper"]
  by (simp add: set_organization_id_def set_network_id_def)

text \<open>
  Claim C5, as amended. Let \<open>setup_application_parameters\<close> return \<open>False\<close> on a valid
  required-flags configuration, and let \<open>key\<close> be the credential the call resolves (the
  supplied value, else \<open>MK_CSM_KEY\<close>). Then the credential is required, and the failing step
  is known from the inputs. If \<open>key\<close> is empty, the credential step fails: the stored
  credential is \<open>None\<close>, whatever it was before the call, and the organization and network
  fields are as before the call. If \<open>key\<close> is non-empty, the stored credential is \<open>key\<close>
  and the organization is required; if then no organization id is supplied, the organization
  step fails and the organization and network fields are as before the call; if one is
  supplied, the network step fails, the stored organization id is the supplied one, the
  organization name is the supplied one or else the one before the call, and the network
  fields are as before the call. Nothing an earlier step stored is undone.
\<close>

theorem setup_no_rollback:
  assumes ret: "setup_application_parameters e rp params caching s = (Inr False, s')"
      and ord: "check_required_parameter_order rp"
      and eff: "eff = (case params of None \<Rightarrow> Map.empty | Some p \<Rightarrow> p)"
      and key: "key = (if str_truthy (eff ''api_key'') then eff ''api_key'' else getenv_MK_CSM_KEY e)"
  shows "network_id s' = network_id s \<and> network_name s' = network_name s
       \<and> required rp ''api_key''
       \<and> api_key s' = (if str_truthy key then key else None)
       \<and> (str_truthy key \<longrightarrow> required rp ''organization_id'')
       \<and> (str_truthy key \<and> str_truthy (eff ''organization_id'') \<longrightarrow>
            required rp ''network_id'' \<and> \<not> str_truthy (eff ''network_id'')
            \<and> organization_id s' = eff ''organization_id''
            \<and> organization_name s' = (if str_truthy (eff ''org_name'') then eff ''org_name''
                                       else organization_name s))
       \<and> (\<not> (str_truthy key \<and> str_truthy (eff ''organization_id'')) \<longrightarrow>
            organization_id s' = organization_id s \<and> organization_name s' = organization_name s)"
proof -
  define s0 where
    "s0 = (case caching of None \<Rightarrow> s | Some c \<Rightarrow> s\<lparr>enable_caching := c\<rparr>)\<lparr>required_app_setup_param := rp\<rparr>"
  have f0: "network_id s0 = network_id s" "network_name s0 = network_name s"
           "organization_id s0 = organization_id s" "organization_name s0 = organization_name s"
           "api_key s0 = api_key s"
    by (simp_all add: s0_def split: option.splits)
  have ord': "required rp ''organization_id'' \<longrightarrow> required rp ''api_key''"
             "required rp ''network_id'' \<longrightarrow> required rp ''api_key'' \<and> required rp ''organization_id''"
    using ord by (auto simp: check_required_parameter_order_def Let_def split: if_splits)
  obtain r1 s1 where st1: "setup_api_key_stage e rp eff s0 = (r1, s1)" by force
  obtain b2 s2 where st2: "setup_organization_stage rp eff s1 = (b2, s2)" by force
  obtain b3 s3 where st3: "setup_network_stage rp eff s2 = (b3, s3)" by force
  note a = api_key_stage_fields [OF st1]
  note b = organization_stage_fields [OF st2]
  note n = network_stage_fields [OF st3]
  from ret ord have run:
    "(case r1 of Inl err \<Rightarrow> (Inl err, s1)
      | Inr False \<Rightarrow> (Inr False, s1)
      | Inr True \<Rightarrow> (case b2 of False \<Rightarrow> (Inr False, s2)
                     | True \<Rightarrow> (case b3 of False \<Rightarrow> (Inr False, s3) | True \<Rightarrow> (Inr True, s3))))
     = (Inr False, s')"
    by (simp add: setup_application_parameters_def Let_def s0_def [symmetric] eff [symmetric]
                  st1 st2 st3 split: sum.splits bool.splits)
  have net_fail: "\<not> b3 \<Longrightarrow> str_truthy (api_key s2) \<Longrightarrow> str_truthy (organization_id s2)
                    \<Longrightarrow> \<not> str_truthy (eff ''network_id'')"
    using st3 by (auto simp: setup_network_stage_def set_network_id_def is_set_truthy Let_def
                       split: if_splits)
  consider (cred) "r1 = Inr False" "s' = s1"
    | (org) "r1 = Inr True" "\<not> b2" "s' = s2"
    | (net) "r1 = Inr True" "b2" "\<not> b3" "s' = s3"
    using run by (auto split: sum.splits bool.splits if_splits)
  then show ?thesis
  proof cases
    case cred
    with a f0 key show ?thesis by (auto split: if_splits)
  next
    case org
    have rq: "required rp ''api_key''" using org b(6) ord' by blast
    with org a b f0 key ord' show ?thesis by (auto split: if_splits)
  next
    case net
    have rq: "required rp ''network_id''" "required rp ''organization_id''"
             "required rp ''api_key''"
      using net n(6) ord' by blast+
    have k: "str_truthy (api_key s1)" "api_key s1 = key"
      using a(5,6) rq net(1) key by (auto split: if_splits)
    have o: "organization_id s2 = eff ''organization_id''" "str_truthy (eff ''organization_id'')"
            "organization_name s2 = (if str_truthy (eff ''org_name'') then eff ''org_name''
                                     else organization_name s1)"
      using b(4,7) net(2) rq by auto
    have nf: "\<not> str_truthy (eff ''network_id'')"
      using net_fail net(3) k(1) o(1,2) b(1) by simp
    have s3: "s3 = s2" using n(6) net(3) by blast
    show ?thesis
      using net(4) s3 rq k o nf a(1-4) b(1-3) f0 by simp
  qed
qed

theorem setup_no_rollback_witness:
  "fst (setup_application_parameters quiet_env
          [''api_key'' \<mapsto> True, ''organization_id'' \<mapsto> True, ''network_id'' \<mapsto> True]
          (Some [''api_key'' \<mapsto> ''k1'', ''organization_id'' \<mapsto> ''o1'']) None
          (set_organization_id (Some ''o0'') (Some ''Old'') blank_wrapper)) = Inr False
   \<and> check_required_parameter_order
        [''api_key'' \<mapsto> True, ''organization_id'' \<mapsto> True, ''network_id'' \<mapsto> True]
   \<and> api_key (snd (setup_application_parameters quiet_env
          [''api_key'' \<mapsto> True, ''organization_id'' \<mapsto> True, ''network_id'' \<mapsto> True]
          (Some [''api_key'' \<mapsto> ''k1'', ''organization_id'' \<mapsto> ''o1'']) None
          (set_organization_id (Some ''o0'') (Some ''Old'') blank_wrapper))) = Some ''k1''
   \<and> organization_id (snd (setup_application_parameters quiet_env
          [''api_key'' \<mapsto> True, ''organization_id'' \<mapsto> True, ''network_id'' \<mapsto> True]
          (Some [''api_key'' \<mapsto> ''k1'', ''organization_id'' \<mapsto> ''o1'']) None
          (set_organization_id (Some ''o0'') (Some ''Old'') blank_wrapper))) = Some ''o1''
   \<and> organization_name (snd (setup_application_parameters quiet_env
          [''api_key'' \<mapsto> True, ''organization_id'' \<mapsto> True, ''network_id'' \<mapsto> True]
          (Some [''api_key'' \<mapsto> ''k1'', ''organization_id'' \<mapsto> ''o1'']) None
          (set_organization_id (Some ''o0'') (Some ''Old'') blank_wrapper))) = Some ''Old''"
proof -
  let ?rp = "[''api_key'' \<mapsto> True, ''organization_id'' \<mapsto> True, ''network_id'' \<mapsto> True]"
  let ?ps = "[''api_key'' \<mapsto> ''k1'', ''organization_id'' \<mapsto> ''o1'']"
  let ?s = "set_organization_id (Some ''o0'') (Some ''Old'') blank_wrapper"
  let ?run = "setup_application_parameters quiet_env ?rp (Some ?ps) None ?s"
  have ord: "check_required_parameter_order ?rp"
    by (simp add: check_required_parameter_order_def required_def)
  have ret: "fst ?run = Inr False"
    by (simp add: setup_application_parameters_def ord setup_api_key_stage_def
          setup_organization_stage_def setup_network_stage_def required_def set_api_key_def
          set_organization_id_def is_api_key_set_def is_organization_id_set_def
          quiet_env_def blank_wrapper_eq Let_def)
  then have run: "?run = (Inr False, snd ?run)"
    by (metis prod.collapse)
  have old: "organization_name ?s = Some ''Old''"
    by (simp add: set_organization_id_def)
  show ?thesis
    using setup_no_rollback [OF run ord refl refl] ret ord old by simp
qed

text \<open>
  Claim C5 as stated fails when the credential step is the failing one. On an instance built
  with the key \<open>secret\<close>, \<open>setup_application_parameters\<close> with \<open>api_key\<close> required, no
  supplied value and no \<open>MK_CSM_KEY\<close> returns \<open>False\<close> and leaves the credential
  \<open>None\<close>: the field was set before the failing step and did not keep its value.
\<close>

theorem setup_clears_credential_counterexample:
  "api_key keyed_wrapper = Some ''secret''
   \<and> check_required_parameter_order [''api_key'' \<mapsto> True]
   \<and> fst (setup_application_parameters quiet_env [''api_key'' \<mapsto> True] None None keyed_wrapper)
       = Inr False
   \<and> api_key (snd (setup_application_parameters quiet_env [''api_key'' \<mapsto> True] None None
                     keyed_wrapper)) = None"
  by (simp add: setup_application_parameters_def check_required_parameter_order_def
        setup_api_key_stage_def required_def set_api_key_def is_api_key_set_def
        quiet_env_def keyed_wrapper_eq Let_def)

subsection \<open>Cache layer\<close>

lemma is_error_fetch_error: "is_error (fetch_error err)"
  by (cases err) (simp_all add: error_record_def error_record_status_def)

lemma get_organizations_unfold:
  assumes "get_dashboard e s = (r, s1)"
  shows "get_organizations e c s =
     (if (c \<and> enable_caching s) \<and> organizations_cache s \<noteq> None
      then (Inr (JArr (the (organizations_cache s))), s)
      else case r of
             Inl err \<Rightarrow> (Inl err, s1)
           | Inr None \<Rightarrow> (Inr (error_record ''DashboardAPIError''
                                (JStr ''Meraki Dashboard API not initialized.'')), s1)
           | Inr (Some d) \<Rightarrow>
               (case getOrganizations e of
                  Inr fetched_data \<Rightarrow>
                    (Inr (JArr fetched_data),
                     if enable_caching s
                     then s1\<lparr>api_log := api_log s @ [CallGetOrganizations],
                             organizations_cache := Some fetched_data\<rparr>
                     else s1\<lparr>api_log := api_log s @ [CallGetOrganizations]\<rparr>)
                | Inl err \<Rightarrow>
                    (Inr (fetch_error err),
                     if enable_caching s
                     then s1\<lparr>api_log := api_log s @ [CallGetOrganizations],
                             organizations_cache := Some []\<rparr>
                     else s1\<lparr>api_log := api_log s @ [CallGetOrganizations]\<rparr>)))"
proof -
  have f: "enable_caching s1 = enable_caching s" "api_log s1 = api_log s"
    using get_dashboard_fields [of e s] assms by simp_all
  show ?thesis
    by (simp add: get_organizations_def Let_def assms f split: option.splits sum.splits)
qed

lemma get_networks_unfold:
  assumes "cur = (if i \<noteq> None then i else organization_id s)"
      and "s0 = (if networks_cache s = None then s\<lparr>networks_cache := Some Map.empty\<rparr> else s)"
      and "cache = (case networks_cache s of None \<Rightarrow> Map.empty | Some m \<Rightarrow> m)"
      and "oid = fmt_opt cur"
      and "get_dashboard e s0 = (r, s1)"
  shows "get_networks e i c s =
     (if \<not> str_truthy cur
      then (Inr (error_record ''NoOrganizationSelected''
                   (JStr ''Please select an organization first.'')), s)
      else if (c \<and> enable_caching s) \<and> cache oid \<noteq> None
      then (Inr (JArr (the (cache oid))), s0)
      else case r of
             Inl err \<Rightarrow> (Inl err, s1)
           | Inr None \<Rightarrow> (Inr (error_record ''DashboardAPIError''
                                (JStr ''Meraki Dashboard API not initialized.'')), s1)
           | Inr (Some d) \<Rightarrow>
               (case getOrganizationNetworks e oid of
                  Inr fetched_data \<Rightarrow>
                    (Inr (JArr fetched_data),
                     if enable_caching s
                     then s1\<lparr>api_log := api_log s @ [CallGetOrganizationNetworks oid],
                             networks_cache := Some (cache(oid \<mapsto> fetched_data))\<rparr>
                     else s1\<lparr>api_log := api_log s @ [CallGetOrganizationNetworks oid]\<rparr>)
                | Inl err \<Rightarrow>
                    (Inr (fetch_error err),
                     if enable_caching s
                     then s1\<lparr>api_log := api_log s @ [CallGetOrganizationNetworks oid],
                             networks_cache := Some (cache(oid \<mapsto> []))\<rparr>
                     else s1\<lparr>api_log := api_log s @ [CallGetOrganizationNetworks oid]\<rparr>)))"
proof -
  have f: "enable_caching s1 = enable_caching s" "api_log s1 = api_log s"
          "enable_caching s0 = enable_caching s"
    using get_dashboard_fields [of e s0] assms(5) by (simp_all add: assms(2))
  have c0: "(case networks_cache s0 of None \<Rightarrow> Map.empty | Some m \<Rightarrow> m) = cache"
    by (simp add: assms(2,3) split: option.splits)
  have "get_networks e i c s =
     (if \<not> str_truthy cur
      then (Inr (error_record ''NoOrganizationSelected''
                   (JStr ''Please select an organization first.'')), s)
      else (let should = (c \<and> enable_caching s0)
            in if should \<and> cache oid \<noteq> None
               then (case cache oid of
                       Some cached \<Rightarrow> (Inr (JArr cached), s0)
                     | None \<Rightarrow> (Inr JNull, s0))
               else (case get_dashboard e s0 of
                       (Inl err, s1) \<Rightarrow> (Inl err, s1)
                     | (Inr None, s1) \<Rightarrow>
                         (Inr (error_record ''DashboardAPIError''
                                 (JStr ''Meraki Dashboard API not initialized.'')), s1)
                     | (Inr (Some d), s1) \<Rightarrow>
                         (let s2 = s1\<lparr>api_log := api_log s1 @ [CallGetOrganizationNetworks oid]\<rparr>
                          in case getOrganizationNetworks e oid of
                               Inr fetched_data \<Rightarrow>
                                 (Inr (JArr fetched_data),
                                  if enable_caching s2
                                  then s2\<lparr>networks_cache := Some (cache(oid \<mapsto> fetched_data))\<rparr>
                                  else s2)
                             | Inl err \<Rightarrow>
                                 (Inr (fetch_error err),
                                  if enable_caching s2
                                  then s2\<lparr>networks_cache := Some (cache(oid \<mapsto> []))\<rparr>
                                  else s2)))))"
    unfolding get_networks_def assms(1) [symmetric] Let_def assms(2) [symmetric] c0
      assms(4) [symmetric] ..
  then show ?thesis
    by (simp add: Let_def assms(5) f split: option.splits sum.splits)
qed

text \<open>
  Claim C8. With caching enabled, when a call of \<open>_get_organizations\<close> issues the SDK
  fetch and the fetch raises, the call returns the structured error record and leaves the
  organization slot holding the empty list; the next call with \<open>use_cache=True\<close>, whatever
  the SDK would answer then, returns that empty list and issues no fetch. The same holds for
  \<open>_get_networks\<close> and the entry of the networks map under the organization id of the call.
\<close>

theorem failed_fetch_negative_cache:
  "(enable_caching s \<and> api_log (snd (get_organizations e c s)) \<noteq> api_log s
      \<and> getOrganizations e = Inl err \<longrightarrow>
      fst (get_organizations e c s) = Inr (fetch_error err) \<and> is_error (fetch_error err)
      \<and> organizations_cache (snd (get_organizations e c s)) = Some []
      \<and> get_organizations e' True (snd (get_organizations e c s))
          = (Inr (JArr []), snd (get_organizations e c s)))
   \<and> (enable_caching s \<and> api_log (snd (get_networks e i c s)) \<noteq> api_log s
      \<and> oid = fmt_opt (if i \<noteq> None then i else organization_id s)
      \<and> getOrganizationNetworks e oid = Inl err \<longrightarrow>
      fst (get_networks e i c s) = Inr (fetch_error err) \<and> is_error (fetch_error err)
      \<and> (case networks_cache (snd (get_networks e i c s)) of
            None \<Rightarrow> None | Some m \<Rightarrow> m oid) = Some []
      \<and> get_networks e' i True (snd (get_networks e i c s))
          = (Inr (JArr []), snd (get_networks e i c s)))"
proof (intro conjI impI)
  assume h: "enable_caching s \<and> api_log (snd (get_organizations e c s)) \<noteq> api_log s
      \<and> getOrganizations e = Inl err"
  obtain r s1 where gd: "get_dashboard e s = (r, s1)" by force
  have f: "enable_caching s1 = enable_caching s" "api_log s1 = api_log s"
    using get_dashboard_fields [of e s] gd by simp_all
  note u = get_organizations_unfold [OF gd, of c]
  let ?s' = "s1\<lparr>api_log := api_log s @ [CallGetOrganizations], organizations_cache := Some []\<rparr>"
  have nc: "\<not> ((c \<and> enable_caching s) \<and> organizations_cache s \<noteq> None)"
    using h by (auto simp: u split: if_splits)
  obtain d where r: "r = Inr (Some d)"
    using h nc f by (cases r; cases "projr r") (auto simp: u split: if_splits)
  have h1: "enable_caching s" and h3: "getOrganizations e = Inl err" using h by simp_all
  have run: "get_organizations e c s = (Inr (fetch_error err), ?s')"
    using h1 h3 nc r by (auto simp: u)
  obtain r2 s2 where gd2: "get_dashboard e' ?s' = (r2, s2)" by force
  have again: "get_organizations e' True ?s' = (Inr (JArr []), ?s')"
    using h1 f by (simp add: get_organizations_unfold [OF gd2])
  show "fst (get_organizations e c s) = Inr (fetch_error err)" by (simp add: run)
  show "is_error (fetch_error err)" by (rule is_error_fetch_error)
  show "organizations_cache (snd (get_organizations e c s)) = Some []" by (simp add: run)
  show "get_organizations e' True (snd (get_organizations e c s))
          = (Inr (JArr []), snd (get_organizations e c s))"
    using again by (simp only: run snd_conv)
next
  assume h: "enable_caching s \<and> api_log (snd (get_networks e i c s)) \<noteq> api_log s
      \<and> oid = fmt_opt (if i \<noteq> None then i else organization_id s)
      \<and> getOrganizationNetworks e oid = Inl err"
  define cur where "cur = (if i \<noteq> None then i else organization_id s)"
  define s0 where "s0 = (if networks_cache s = None then s\<lparr>networks_cache := Some Map.empty\<rparr> else s)"
  define cache where "cache = (case networks_cache s of None \<Rightarrow> Map.empty | Some m \<Rightarrow> m)"
  have oid: "oid = fmt_opt cur" using h by (simp add: cur_def)
  obtain r s1 where gd: "get_dashboard e s0 = (r, s1)" by force
  have f: "enable_caching s1 = enable_caching s" "api_log s1 = api_log s"
          "api_log s0 = api_log s" "organization_id s1 = organization_id s"
    using get_dashboard_fields [of e s0] gd by (simp_all add: s0_def)
  note u = get_networks_unfold [OF cur_def s0_def cache_def oid gd, of c]
  let ?s' = "s1\<lparr>api_log := api_log s @ [CallGetOrganizationNetworks oid],
                 networks_cache := Some (cache(oid \<mapsto> []))\<rparr>"
  have tr: "str_truthy cur"
    using h by (auto simp: u split: if_splits)
  have nc: "\<not> ((c \<and> enable_caching s) \<and> cache oid \<noteq> None)"
    using h tr f by (auto simp: u split: if_splits)
  obtain d where r: "r = Inr (Some d)"
    using h tr nc f by (cases r; cases "projr r") (auto simp: u split: if_splits)
  have h1: "enable_caching s" and h3: "getOrganizationNetworks e oid = Inl err"
    using h by blast+
  have run: "get_networks e i c s = (Inr (fetch_error err), ?s')"
    using h1 h3 tr nc r by (auto simp: u)
  have cur2: "cur = (if i \<noteq> None then i else organization_id ?s')"
    by (simp add: cur_def f)
  have s02: "?s' = (if networks_cache ?s' = None then ?s'\<lparr>networks_cache := Some Map.empty\<rparr> else ?s')"
    by simp
  have cache2: "cache(oid \<mapsto> []) = (case networks_cache ?s' of None \<Rightarrow> Map.empty | Some m \<Rightarrow> m)"
    by simp
  obtain r2 s2 where gd2: "get_dashboard e' ?s' = (r2, s2)" by force
  have again: "get_networks e' i True ?s' = (Inr (JArr []), ?s')"
    using h1 tr f by (simp add: get_networks_unfold [OF cur2 s02 cache2 oid gd2])
  show "fst (get_networks e i c s) = Inr (fetch_error err)" by (simp add: run)
  show "is_error (fetch_error err)" by (rule is_error_fetch_error)
  show "(case networks_cache (snd (get_networks e i c s)) of
            None \<Rightarrow> None | Some m \<Rightarrow> m oid) = Some []" by (simp add: run)
  show "get_networks e' i True (snd (get_networks e i c s))
          = (Inr (JArr []), snd (get_networks e i c s))"
    using again by (simp only: run snd_conv)
qed

lemma failing_orgs_run:
  "get_organizations failing_env False keyed_wrapper =
     (Inr (error_record_status ''MerakiAPIError'' (JStr ''Internal Server Error'') (JInt 500)),
      keyed_wrapper\<lparr>api_log := [CallGetOrganizations], organizations_cache := Some []\<rparr>)"
  by (simp add: get_organizations_def get_dashboard_def keyed_wrapper_eq failing_env_def)

lemma failing_nets_run:
  "get_networks failing_env (Some ''o1'') False keyed_wrapper =
     (Inr (error_record ''UnexpectedError'' (JStr ''connection reset'')),
      keyed_wrapper\<lparr>api_log := [CallGetOrganizationNetworks ''o1''],
                     networks_cache := Some [''o1'' \<mapsto> []]\<rparr>)"
  by (simp add: get_networks_def get_dashboard_def keyed_wrapper_eq failing_env_def Let_def)

theorem failed_fetch_negative_cache_witness:
  "enable_caching keyed_wrapper
   \<and> api_log (snd (get_organizations failing_env False keyed_wrapper)) \<noteq> api_log keyed_wrapper
   \<and> getOrganizations failing_env = Inl (APIError (JInt 500) (JStr ''Internal Server Error''))
   \<and> fst (get_organizations failing_env False keyed_wrapper)
       = Inr (error_record_status ''MerakiAPIError'' (JStr ''Internal Server Error'') (JInt 500))
   \<and> fst (get_organizations quiet_env True
            (snd (get_organizations failing_env False keyed_wrapper))) = Inr (JArr [])
   \<and> api_log (snd (get_networks failing_env (Some ''o1'') False keyed_wrapper))
       \<noteq> api_log keyed_wrapper
   \<and> getOrganizationNetworks failing_env ''o1'' = Inl (OtherException ''connection reset'')
   \<and> fst (get_networks failing_env (Some ''o1'') False keyed_wrapper)
       = Inr (error_record ''UnexpectedError'' (JStr ''connection reset''))
   \<and> fst (get_networks quiet_env (Some ''o1'') True
            (snd (get_networks failing_env (Some ''o1'') False keyed_wrapper))) = Inr (JArr [])"
proof -
  have a: "enable_caching keyed_wrapper" "api_log keyed_wrapper = []"
    by (simp_all add: keyed_wrapper_eq)
  have b: "getOrganizations failing_env = Inl (APIError (JInt 500) (JStr ''Internal Server Error''))"
          "getOrganizationNetworks failing_env ''o1'' = Inl (OtherException ''connection reset'')"
    by (simp_all add: failing_env_def)
  have c: "api_log (snd (get_organizations failing_env False keyed_wrapper)) \<noteq> api_log keyed_wrapper"
          "api_log (snd (get_networks failing_env (Some ''o1'') False keyed_wrapper))
             \<noteq> api_log keyed_wrapper"
    by (simp_all add: failing_orgs_run failing_nets_run a)
  show ?thesis
    using failed_fetch_negative_cache [where s = keyed_wrapper and e = failing_env and c = False
            and err = "APIError (JInt 500) (JStr ''Internal Server Error'')" and e' = quiet_env
            and i = "Some ''o1''" and oid = "''o1''", THEN conjunct1]
          failed_fetch_negative_cache [where s = keyed_wrapper and e = failing_env and c = False
            and err = "OtherException ''connection reset''" and e' = quiet_env
            and i = "Some ''o1''" and oid = "''o1''", THEN conjunct2]
          a b c
    by (simp add: error_record_def error_record_status_def)
qed

text \<open>
  Claim C9. With caching enabled, if a call of \<open>list_organizations\<close> with
  \<open>use_cache=True\<close> obtains a raw list (from the cache or from a fetch that succeeds), a
  second such call on the resulting instance, whatever the SDK would answer then, gives the
  same result, leaves the instance as it is and issues no fetch.
\<close>

theorem list_organizations_idempotent:
  assumes "enable_caching s"
      and "fst (get_organizations e True s) = Inr (JArr organizations_data)"
  shows "list_organizations e' True (snd (list_organizations e True s))
           = (fst (list_organizations e True s), snd (list_organizations e True s))"
proof -
  obtain r s1 where gd: "get_dashboard e s = (r, s1)" by force
  have f: "enable_caching s1 = enable_caching s"
    using get_dashboard_fields [of e s] gd by simp
  note u = get_organizations_unfold [OF gd, of True]
  define s' where "s' = snd (get_organizations e True s)"
  have st: "enable_caching s' \<and> organizations_cache s' = Some organizations_data"
    using assms f unfolding s'_def
    by (cases r; cases "projr r"; cases "getOrganizations e")
       (auto simp: u error_record_def fetch_error.simps is_error_fetch_error
             split: if_splits dest: arg_cong [where f = is_error])
  have first: "get_organizations e True s = (Inr (JArr organizations_data), s')"
    using assms(2) by (simp add: s'_def prod_eq_iff)
  obtain r2 s2 where gd2: "get_dashboard e' s' = (r2, s2)" by force
  have second: "get_organizations e' True s' = (Inr (JArr organizations_data), s')"
    using st by (simp add: get_organizations_unfold [OF gd2])
  have l1: "list_organizations e True s =
              (fst (list_organizations e True s), s')"
    by (simp add: list_organizations_state s'_def prod_eq_iff)
  have l2: "list_organizations e' True s' = (fst (list_organizations e True s), s')"
    by (simp add: list_organizations_def first second split: sum.splits)
  show ?thesis
    using l1 l2 by (metis snd_conv)
qed

theorem list_organizations_idempotent_witness:
  "enable_caching keyed_wrapper
   \<and> fst (get_organizations
            (quiet_env\<lparr>getOrganizations := Inr [JObj [(''id'', JStr ''o1''), (''name'', JStr ''Acme'')]]\<rparr>)
            True keyed_wrapper)
       = Inr (JArr [JObj [(''id'', JStr ''o1''), (''name'', JStr ''Acme'')]])
   \<and> fst (list_organizations
            (quiet_env\<lparr>getOrganizations := Inr [JObj [(''id'', JStr ''o1''), (''name'', JStr ''Acme'')]]\<rparr>)
            True keyed_wrapper)
       = Inr (JArr [JObj [(''id'', JStr ''o1''), (''name'', JStr ''Acme''), (''url'', JNull),
                          (''api enabled'', JBool False), (''licensing model'', JNull)]])
   \<and> fst (list_organizations failing_env True
            (snd (list_organizations
              (quiet_env\<lparr>getOrganizations := Inr [JObj [(''id'', JStr ''o1''), (''name'', JStr ''Acme'')]]\<rparr>)
              True keyed_wrapper)))
       = Inr (JArr [JObj [(''id'', JStr ''o1''), (''name'', JStr ''Acme''), (''url'', JNull),
                          (''api enabled'', JBool False), (''licensing model'', JNull)]])"
proof -
  let ?e = "quiet_env\<lparr>getOrganizations := Inr [JObj [(''id'', JStr ''o1''), (''name'', JStr ''Acme'')]]\<rparr>"
  have a: "enable_caching keyed_wrapper" by (simp add: keyed_wrapper_eq)
  have b: "fst (get_organizations ?e True keyed_wrapper)
             = Inr (JArr [JObj [(''id'', JStr ''o1''), (''name'', JStr ''Acme'')]])"
    by (simp add: get_organizations_def get_dashboard_def keyed_wrapper_eq quiet_env_def)
  have c: "fst (list_organizations ?e True keyed_wrapper)
       = Inr (JArr [JObj [(''id'', JStr ''o1''), (''name'', JStr ''Acme''), (''url'', JNull),
                          (''api enabled'', JBool False), (''licensing model'', JNull)]])"
    by (simp add: list_organizations_def get_organizations_def get_dashboard_def keyed_wrapper_eq
          quiet_env_def format_organization_def and_then_def)
  show ?thesis
    using list_organizations_idempotent [OF a b, of failing_env] a b c by simp
qed

subsection \<open>Request functions and single-request operations\<close>

lemma make_request_without_organization:
  "\<not> str_truthy (ORGANIZATION_ID g) \<Longrightarrow>
     make_request e method endpoint payload g =
       (error_record ''NoOrganizationSelected'' (JStr ''Please select an organization first.''), g)"
  by (simp add: make_request_def)

lemma make_request_pl_always_sends:
  "api_log (snd (make_request_pl e method endpoint payload s)) =
     api_log s @ [CallHttp method (local_dns_url (organization_id s) endpoint) (request_data payload)]"
  by (simp add: make_request_pl_def Let_def split: sum.splits)

text \<open>
  Claim C2 fails for \<open>ProjectLogic._make_request\<close>. On an instance whose wrapper has no
  organization id, the request \<open>GET profiles\<close> is sent, to a URL that holds the text
  \<open>None\<close>, and the result is the transport's error, not \<open>NoOrganizationSelected\<close>.
\<close>

theorem make_request_pl_no_organization_guard:
  "organization_id blank_wrapper = None
   \<and> make_request_pl quiet_env ''GET'' ''profiles'' None blank_wrapper =
       (error_record ''ConnectionError'' (JStr ''unreachable''),
        blank_wrapper\<lparr>api_log :=
          [CallHttp ''GET''
             ''https://api.meraki.com/api/v1/organizations/None/appliance/dns/local/profiles''
             None]\<rparr>)"
  by (simp add: make_request_pl_def blank_wrapper_eq quiet_env_def local_dns_url_def
        request_data_def read_response_def)

lemma make_request_failure:
  assumes "str_truthy (ORGANIZATION_ID g)"
      and "request e method (local_dns_url (ORGANIZATION_ID g) endpoint) (request_data payload)
             = Inl err"
  shows "fst (make_request e method endpoint payload g) = request_error err"
  using assms by (simp add: make_request_def read_response_def Let_def)

lemma request_error_kinds:
  "request_error (ConnectionError msg) = error_record ''ConnectionError'' (JStr msg)"
  "request_error (ConnectTimeout msg) = error_record ''ConnectionError'' (JStr msg)"
  "request_error (ReadTimeout msg) = error_record ''TimeoutError'' (JStr msg)"
  "request_error (Timeout msg) = error_record ''TimeoutError'' (JStr msg)"
  "request_error (RequestException msg) = error_record ''RequestException'' (JStr msg)"
  "request_error (OtherException msg) = error_record ''UnexpectedError'' (JStr msg)"
  by simp_all

lemma raised_http_error_loses_response:
  "raise_for_status r = Some err \<Longrightarrow>
     request_error err = error_record_status ''HTTPError'' (JStr ''No response text'') (JStr ''Unknown'')"
  by (auto simp: raise_for_status_def response_bool_def split: if_splits)

text \<open>
  Claim C4 fails on a non-2xx response. For the answer 404 with body \<open>Not found\<close>, both
  request functions return the record with \<open>details\<close> \<open>No response text\<close> and
  \<open>status_code\<close> \<open>Unknown\<close>: the handler tests the truth value of the response, which is
  false for every response that \<open>raise_for_status\<close> rejects.
\<close>

theorem make_request_http_error_details:
  "fst (make_request not_found_env ''DELETE'' ''profiles/p1'' None selected_globals) =
     JObj [(''error'', JStr ''HTTPError''), (''details'', JStr ''No response text''),
           (''status_code'', JStr ''Unknown'')]
   \<and> fst (make_request_pl not_found_env ''DELETE'' ''profiles/p1'' None
            (set_organization_id (Some ''o1'') None keyed_wrapper)) =
     JObj [(''error'', JStr ''HTTPError''), (''details'', JStr ''No response text''),
           (''status_code'', JStr ''Unknown'')]"
  by (simp add: make_request_def make_request_pl_def not_found_env_def quiet_env_def
        selected_globals_def fresh_globals_def read_response_def raise_for_status_def
        response_bool_def error_record_status_def Let_def)

text \<open>
  Claim C7 fails for \<open>create_profile\<close>. When the vendor answers the creating request
  with an empty body, the request function returns \<open>None\<close> and \<open>create_profile\<close>, in the
  module and in the class, raises \<open>AttributeError\<close> at \<open>response.get\<close>.
\<close>

theorem create_profile_raises_on_no_content:
  "fst (make_request no_content_env ''POST'' ''profiles'' (Some (JObj [(''name'', JStr ''Test'')]))
          selected_globals) = JNull
   \<and> fst (create_profile no_content_env ''Test'' selected_globals)
       = Inl (no_attribute JNull ''get'')
   \<and> fst (create_profile_pl no_content_env ''Test''
            (set_organization_id (Some ''o1'') None keyed_wrapper))
       = Inl (no_attribute JNull ''get'')"
  by (simp add: create_profile_def create_profile_pl_def make_request_def make_request_pl_def
        no_content_env_def quiet_env_def selected_globals_def fresh_globals_def
        read_response_def raise_for_status_def strip_truthy_def and_then_def no_attribute_def
        Let_def)

subsection \<open>The assignment listing and the profile listing\<close>

lemma the_strs_map_JStr: "the_strs (map JStr ts) = Some ts"
  by (induction ts) simp_all

lemma map_exn_map:
  assumes "\<And>x. f (enc x) = Inr (row x)"
  shows "map_exn f (map enc xs) = Inr (map row xs)"
  by (induction xs) (simp_all add: assms)

lemma map_of_snoc:
  "map_of (ys @ [(a, b)]) q =
     (case map_of ys q of None \<Rightarrow> (if q = a then Some b else None) | Some w \<Rightarrow> Some w)"
  by (simp add: map_of_append map_add_def split: option.splits)

lemma dict_of_items_encoded:
  assumes "\<And>x. py_getitem (enc x) kf = Inr (JStr (k x))"
      and "\<And>x. py_getitem (enc x) vf = Inr (JStr (v x))"
  shows "\<exists>m'. dict_of_items kf vf (map enc xs) m = Inr m'
           \<and> (\<forall>q. m' (JStr q) =
                 (case map_of (rev (map (\<lambda>x. (k x, v x)) xs)) q of
                    None \<Rightarrow> m (JStr q) | Some w \<Rightarrow> Some (JStr w)))"
proof (induction xs arbitrary: m)
  case Nil
  then show ?case by simp
next
  case (Cons x xs)
  let ?old = "map_of (rev (map (\<lambda>x. (k x, v x)) xs))"
  obtain m' where m': "dict_of_items kf vf (map enc xs) (m(JStr (k x) \<mapsto> JStr (v x))) = Inr m'"
    and look: "\<And>q. m' (JStr q) =
                 (case ?old q of
                    None \<Rightarrow> (m(JStr (k x) \<mapsto> JStr (v x))) (JStr q) | Some w \<Rightarrow> Some (JStr w))"
    using Cons.IH [of "m(JStr (k x) \<mapsto> JStr (v x))"] by blast
  have run: "dict_of_items kf vf (map enc (x # xs)) m = Inr m'"
    by (simp add: assms dict_set_def m')
  have new: "map_of (rev (map (\<lambda>x. (k x, v x)) (x # xs))) q =
               (case ?old q of None \<Rightarrow> (if q = k x then Some (v x) else None)
                | Some w \<Rightarrow> Some w)" for q
    using map_of_snoc [of "rev (map (\<lambda>x. (k x, v x)) xs)" "k x" "v x" q] by simp
  have "m' (JStr q) =
          (case map_of (rev (map (\<lambda>x. (k x, v x)) (x # xs))) q of
             None \<Rightarrow> m (JStr q) | Some w \<Rightarrow> Some (JStr w))" for q
    unfolding new look by (cases "?old q") simp_all
  with run show ?case by blast
qed

lemma format_network_ldl_encoded: "format_network_ldl (network_json n) = Inr (spec_network_row n)"
  by (simp add: format_network_ldl_def network_json_def spec_network_row_def and_then_def
        the_strs_map_JStr)

lemma raw_network_map:
  "\<exists>m'. dict_of_items ''id'' ''name'' (map network_json ns) Map.empty = Inr m'
         \<and> (\<forall>q. m' (JStr q) = map_option JStr (spec_network_name ns q))"
proof -
  obtain m' where run: "dict_of_items ''id'' ''name'' (map network_json ns) Map.empty = Inr m'"
    and look: "\<And>q. m' (JStr q) =
                 (case map_of (rev (map (\<lambda>x. (n_id x, n_name x)) ns)) q of
                    None \<Rightarrow> Map.empty (JStr q) | Some w \<Rightarrow> Some (JStr w))"
    using dict_of_items_encoded [where enc = network_json and kf = "''id''" and vf = "''name''"
          and k = n_id and v = n_name and xs = ns and m = Map.empty]
    by (auto simp: network_json_def)
  have "m' (JStr q) = map_option JStr (spec_network_name ns q)" for q
    unfolding look spec_network_name_def
    by (cases "map_of (rev (map (\<lambda>x. (n_id x, n_name x)) ns)) q") simp_all
  with run show ?thesis by blast
qed

lemma network_row_map:
  "\<exists>m'. dict_of_items ''ID'' ''Name'' (map spec_network_row ns) Map.empty = Inr m'
         \<and> (\<forall>q. m' (JStr q) = map_option JStr (spec_network_name ns q))"
proof -
  obtain m' where run: "dict_of_items ''ID'' ''Name'' (map spec_network_row ns) Map.empty = Inr m'"
    and look: "\<And>q. m' (JStr q) =
                 (case map_of (rev (map (\<lambda>x. (n_id x, n_name x)) ns)) q of
                    None \<Rightarrow> Map.empty (JStr q) | Some w \<Rightarrow> Some (JStr w))"
    using dict_of_items_encoded [where enc = spec_network_row and kf = "''ID''" and vf = "''Name''"
          and k = n_id and v = n_name and xs = ns and m = Map.empty]
    by (auto simp: spec_network_row_def)
  have "m' (JStr q) = map_option JStr (spec_network_name ns q)" for q
    unfolding look spec_network_name_def
    by (cases "map_of (rev (map (\<lambda>x. (n_id x, n_name x)) ns)) q") simp_all
  with run show ?thesis by blast
qed

lemma raw_profile_map:
  "\<exists>m'. dict_of_items ''profileId'' ''name'' (map profile_json ps) Map.empty = Inr m'
         \<and> (\<forall>q. m' (JStr q) = map_option JStr (spec_profile_name ps q))"
proof -
  obtain m' where run: "dict_of_items ''profileId'' ''name'' (map profile_json ps) Map.empty = Inr m'"
    and look: "\<And>q. m' (JStr q) =
                 (case map_of (rev (map (\<lambda>x. (p_id x, p_name x)) ps)) q of
                    None \<Rightarrow> Map.empty (JStr q) | Some w \<Rightarrow> Some (JStr w))"
    using dict_of_items_encoded [where enc = profile_json and kf = "''profileId''"
          and vf = "''name''" and k = p_id and v = p_name and xs = ps and m = Map.empty]
    by (auto simp: profile_json_def)
  have "m' (JStr q) = map_option JStr (spec_profile_name ps q)" for q
    unfolding look spec_profile_name_def
    by (cases "map_of (rev (map (\<lambda>x. (p_id x, p_name x)) ps)) q") simp_all
  with run show ?thesis by blast
qed

lemma assignment_row_encoded:
  assumes "\<And>q. network_map (JStr q) = map_option JStr (spec_network_name ns q)"
      and "\<And>q. profile_map (JStr q) = map_option JStr (spec_profile_name ps q)"
  shows "assignment_row network_map profile_map (assignment_json a)
           = Inr (spec_enriched_assignment ns ps a)"
  by (simp add: assignment_row_def assignment_json_def spec_enriched_assignment_def and_then_def
        dict_get_def assms split: option.splits)

lemma assignment_rows_encoded:
  assumes "\<And>q. network_map (JStr q) = map_option JStr (spec_network_name ns q)"
      and "\<And>q. profile_map (JStr q) = map_option JStr (spec_profile_name ps q)"
  shows "assignment_rows network_map profile_map (items_json (map assignment_json as))
           = Inr (JArr (map (spec_enriched_assignment ns ps) as))"
  by (simp add: assignment_rows_def items_json_def and_then_def
        map_exn_map [where f = "assignment_row network_map profile_map"
                     and enc = assignment_json and row = "spec_enriched_assignment ns ps",
                     OF assignment_row_encoded [OF assms]])

lemma profile_to_network_encoded:
  assumes nm: "\<And>q. network_map (JStr q) = map_option JStr (spec_network_name ns q)"
  shows "\<exists>m'. profile_to_network_of network_map (map (spec_enriched_assignment ns' ps) as) m
                 = Inr m'
           \<and> (\<forall>q. m' (JStr q) =
                 (case spec_assigned_network as q of
                    None \<Rightarrow> m (JStr q)
                  | Some nid \<Rightarrow>
                      Some (JObj [(''Network ID'', JStr nid),
                                  (''Network Name'',
                                   JStr (case spec_network_name ns nid of
                                           None \<Rightarrow> ''[unknown]'' | Some w \<Rightarrow> w))])))"
proof (induction as arbitrary: m)
  case Nil
  then show ?case by (simp add: spec_assigned_network_def)
next
  case (Cons a as)
  let ?info = "JObj [(''Network ID'', JStr (a_network a)),
                     (''Network Name'',
                      JStr (case spec_network_name ns (a_network a) of
                              None \<Rightarrow> ''[unknown]'' | Some w \<Rightarrow> w))]"
  let ?ok = "a_profile a \<noteq> [] \<and> a_network a \<noteq> []"
  let ?m1 = "if ?ok then m(JStr (a_profile a) \<mapsto> ?info) else m"
  obtain m' where m': "profile_to_network_of network_map
                         (map (spec_enriched_assignment ns' ps) as) ?m1 = Inr m'"
    and look: "\<And>q. m' (JStr q) =
                 (case spec_assigned_network as q of
                    None \<Rightarrow> ?m1 (JStr q)
                  | Some nid \<Rightarrow>
                      Some (JObj [(''Network ID'', JStr nid),
                                  (''Network Name'',
                                   JStr (case spec_network_name ns nid of
                                           None \<Rightarrow> ''[unknown]'' | Some w \<Rightarrow> w))]))"
    using Cons.IH [of ?m1] by blast
  have run: "profile_to_network_of network_map
               (map (spec_enriched_assignment ns' ps) (a # as)) m = Inr m'"
    using m'
    by (cases ?ok)
       (auto simp: spec_enriched_assignment_def dict_get_def dict_set_def nm
             split: option.splits)
  have new: "spec_assigned_network (a # as) q =
               (case spec_assigned_network as q of
                  None \<Rightarrow> (if ?ok \<and> q = a_profile a then Some (a_network a) else None)
                | Some w \<Rightarrow> Some w)" for q
    by (cases ?ok)
       (auto simp: spec_assigned_network_def map_of_snoc simp del: map_of_append
             split: option.splits)
  have "m' (JStr q) =
          (case spec_assigned_network (a # as) q of
             None \<Rightarrow> m (JStr q)
           | Some nid \<Rightarrow>
               Some (JObj [(''Network ID'', JStr nid),
                           (''Network Name'',
                            JStr (case spec_network_name ns nid of
                                    None \<Rightarrow> ''[unknown]'' | Some w \<Rightarrow> w))]))" for q
    unfolding new look by (cases "spec_assigned_network as q") auto
  with run show ?case by blast
qed

lemma profile_row_encoded:
  assumes "\<And>q. profile_to_network (JStr q) =
                 (case spec_assigned_network as q of
                    None \<Rightarrow> None
                  | Some nid \<Rightarrow>
                      Some (JObj [(''Network ID'', JStr nid),
                                  (''Network Name'',
                                   JStr (case spec_network_name ns nid of
                                           None \<Rightarrow> ''[unknown]'' | Some w \<Rightarrow> w))]))"
  shows "profile_row profile_to_network (profile_json p) = Inr (spec_enriched_profile as ns p)"
  by (cases "spec_assigned_network as (p_id p)")
     (simp_all add: profile_row_def profile_json_def spec_enriched_profile_def and_then_def
        dict_contains_def assms)

lemma profiles_table_encoded:
  "profiles_table (JArr (map profile_json ps)) (JArr (map (spec_enriched_assignment ns' ps') as))
       (JArr (map spec_network_row ns))
     = Inr (JArr (map (spec_enriched_profile as ns) ps))"
proof -
  obtain nm where nm_run: "dict_of_items ''ID'' ''Name'' (map spec_network_row ns) Map.empty = Inr nm"
    and nm: "\<And>q. nm (JStr q) = map_option JStr (spec_network_name ns q)"
    using network_row_map [of ns] by blast
  define network_map where "network_map = (if ns = [] then Map.empty else nm)"
  have nm': "network_map (JStr q) = map_option JStr (spec_network_name ns q)" for q
    by (simp add: network_map_def nm spec_network_name_def)
  have first: "(if truthy (JArr (map spec_network_row ns))
               then and_then (py_iter (JArr (map spec_network_row ns)))
                      (\<lambda>nets. dict_of_items ''ID'' ''Name'' nets Map.empty)
               else Inr Map.empty) = Inr network_map"
    by (simp add: network_map_def and_then_def nm_run)
  obtain ptn where ptn_run:
      "profile_to_network_of network_map (map (spec_enriched_assignment ns' ps') as) Map.empty
         = Inr ptn"
    and ptn: "\<And>q. ptn (JStr q) =
                 (case spec_assigned_network as q of
                    None \<Rightarrow> Map.empty (JStr q)
                  | Some nid \<Rightarrow>
                      Some (JObj [(''Network ID'', JStr nid),
                                  (''Network Name'',
                                   JStr (case spec_network_name ns nid of
                                           None \<Rightarrow> ''[unknown]'' | Some w \<Rightarrow> w))]))"
    using profile_to_network_encoded [where network_map = network_map and ns = ns, OF nm',
            of ns' ps' as Map.empty] by blast
  have rows: "map_exn (profile_row ptn) (map profile_json ps)
                = Inr (map (spec_enriched_profile as ns) ps)"
    by (rule map_exn_map) (rule profile_row_encoded, simp add: ptn)
  show ?thesis
    unfolding profiles_table_def first
    by (simp add: and_then_def ptn_run rows)
qed

lemma make_request_delivers:
  assumes "str_truthy (ORGANIZATION_ID g)"
      and "read_response (request e method (local_dns_url (ORGANIZATION_ID g) endpoint) None)
             = Inr j"
  shows "make_request e method endpoint None g =
           (j, g\<lparr>log := log g @ [CallHttp method (local_dns_url (ORGANIZATION_ID g) endpoint) None]\<rparr>)"
  using assms by (simp add: make_request_def request_data_def Let_def)

lemma fetch_error_not_list: "fetch_error err \<noteq> JArr xs"
  by (cases err) (simp_all add: error_record_def error_record_status_def)

lemma get_networks_ldl_cached:
  assumes "str_truthy (ORGANIZATION_ID g)"
      and "networks_cache_g g (fmt_opt (ORGANIZATION_ID g)) = Some xs"
  shows "get_networks_ldl e g = (Inr (JArr xs), g)"
  using assms by (simp add: get_networks_ldl_def Let_def)

lemma get_networks_ldl_list:
  assumes "fst (get_networks_ldl e g) = Inr (JArr xs)"
  shows "str_truthy (ORGANIZATION_ID g)"
    and "ORGANIZATION_ID (snd (get_networks_ldl e g)) = ORGANIZATION_ID g"
    and "networks_cache_g (snd (get_networks_ldl e g)) (fmt_opt (ORGANIZATION_ID g)) = Some xs"
proof -
  show org: "str_truthy (ORGANIZATION_ID g)"
    using assms by (auto simp: get_networks_ldl_def error_record_def split: if_splits)
  obtain r g1 where gd: "get_dashboard_ldl e g = (r, g1)" by force
  have f: "ORGANIZATION_ID g1 = ORGANIZATION_ID g" "networks_cache_g g1 = networks_cache_g g"
    using gd by (auto simp: get_dashboard_ldl_def split: if_splits option.splits)
  show "ORGANIZATION_ID (snd (get_networks_ldl e g)) = ORGANIZATION_ID g"
    by (simp add: get_networks_ldl_def Let_def gd f split: option.splits sum.splits)
  show "networks_cache_g (snd (get_networks_ldl e g)) (fmt_opt (ORGANIZATION_ID g)) = Some xs"
    using assms org
    by (cases "networks_cache_g g (fmt_opt (ORGANIZATION_ID g))"; cases r;
        cases "getOrganizationNetworks e (fmt_opt (ORGANIZATION_ID g))")
       (simp_all add: get_networks_ldl_def Let_def gd f fetch_error_not_list)
qed

lemma list_networks_ldl_cached:
  assumes "str_truthy (ORGANIZATION_ID g)"
      and "networks_cache_g g (fmt_opt (ORGANIZATION_ID g)) = Some (map network_json ns)"
  shows "list_networks_ldl e g = (Inr (JArr (map spec_network_row ns)), g)"
  by (cases ns)
     (simp_all add: list_networks_ldl_def get_networks_ldl_cached [OF assms] and_then_def
        map_exn_map [where f = format_network_ldl and enc = network_json
                     and row = spec_network_row, OF format_network_ldl_encoded]
        format_network_ldl_encoded)

lemma is_error_items [simp]: "\<not> is_error (items_json xs)" "\<not> is_error (JArr ys)"
  by (simp_all add: items_json_def)

lemma get_networks_ldl_log:
  "fst (get_networks_ldl e (g\<lparr>log := l\<rparr>)) = fst (get_networks_ldl e g)"
  by (simp add: get_networks_ldl_def get_dashboard_ldl_def Let_def
           split: option.splits sum.splits)

lemma list_network_assignments_encoded:
  assumes nets: "fst (get_networks_ldl e g) = Inr (JArr (map network_json ns))"
      and profs: "read_response (request e ''GET'' (local_dns_url (ORGANIZATION_ID g) ''profiles'')
                    None) = Inr (items_json (map profile_json ps))"
      and asgs: "read_response (request e ''GET''
                    (local_dns_url (ORGANIZATION_ID g) ''profiles/assignments'') None)
                  = Inr (items_json (map assignment_json as))"
  shows "fst (list_network_assignments e g) = JArr (map (spec_enriched_assignment ns ps) as)"
    and "ORGANIZATION_ID (snd (list_network_assignments e g)) = ORGANIZATION_ID g"
    and "networks_cache_g (snd (list_network_assignments e g)) (fmt_opt (ORGANIZATION_ID g))
           = Some (map network_json ns)"
proof -
  define g1 where "g1 = snd (get_networks_ldl e g)"
  note n = get_networks_ldl_list [OF nets, folded g1_def]
  have first: "get_networks_ldl e g = (Inr (JArr (map network_json ns)), g1)"
    using nets by (simp add: g1_def prod_eq_iff)
  obtain nm where nm_run: "dict_of_items ''id'' ''name'' (map network_json ns) Map.empty = Inr nm"
    and nm: "\<And>q. nm (JStr q) = map_option JStr (spec_network_name ns q)"
    using raw_network_map [of ns] by blast
  obtain pm where pm_run: "dict_of_items ''profileId'' ''name'' (map profile_json ps) Map.empty = Inr pm"
    and pm: "\<And>q. pm (JStr q) = map_option JStr (spec_profile_name ps q)"
    using raw_profile_map [of ps] by blast
  define g2 where "g2 = g1\<lparr>log := log g1 @
      [CallHttp ''GET'' (local_dns_url (ORGANIZATION_ID g1) ''profiles'') None]\<rparr>"
  define g3 where "g3 = g2\<lparr>log := log g2 @
      [CallHttp ''GET'' (local_dns_url (ORGANIZATION_ID g2) ''profiles/assignments'') None]\<rparr>"
  have o: "ORGANIZATION_ID g1 = ORGANIZATION_ID g" "ORGANIZATION_ID g2 = ORGANIZATION_ID g"
          "ORGANIZATION_ID g3 = ORGANIZATION_ID g"
          "networks_cache_g g3 = networks_cache_g g1"
    using n(2) by (simp_all add: g2_def g3_def)
  have r1: "make_request e ''GET'' ''profiles'' None g1 = (items_json (map profile_json ps), g2)"
    using make_request_delivers [of g1 e "''GET''" "''profiles''"] n(1) profs
    by (simp add: o g2_def)
  have r2: "make_request e ''GET'' ''profiles/assignments'' None g2
              = (items_json (map assignment_json as), g3)"
    using make_request_delivers [of g2 e "''GET''" "''profiles/assignments''"] n(1) asgs
    by (simp add: o g3_def)
  have items: "py_get (items_json (map profile_json ps)) ''items'' (JArr [])
                 = Inr (JArr (map profile_json ps))"
              "truthy (items_json (map profile_json ps))"
    by (simp_all add: items_json_def)
  have run: "list_network_assignments_try e g =
               (Inr (JArr (map (spec_enriched_assignment ns ps) as)), g3)"
    by (simp add: list_network_assignments_try_def first and_then_def nm_run r1 items pm_run r2
          assignment_rows_encoded [where ns = ns and ps = ps, OF nm pm])
  show "fst (list_network_assignments e g) = JArr (map (spec_enriched_assignment ns ps) as)"
    by (simp add: list_network_assignments_def unexpected_error_def run)
  show "ORGANIZATION_ID (snd (list_network_assignments e g)) = ORGANIZATION_ID g"
    by (simp add: list_network_assignments_def unexpected_error_def run o)
  show "networks_cache_g (snd (list_network_assignments e g)) (fmt_opt (ORGANIZATION_ID g))
           = Some (map network_json ns)"
    using n(3) by (simp add: list_network_assignments_def unexpected_error_def run o)
qed

lemma list_profiles_encoded:
  assumes nets: "fst (get_networks_ldl e g) = Inr (JArr (map network_json ns))"
      and profs: "read_response (request e ''GET'' (local_dns_url (ORGANIZATION_ID g) ''profiles'')
                    None) = Inr (items_json (map profile_json ps))"
      and asgs: "read_response (request e ''GET''
                    (local_dns_url (ORGANIZATION_ID g) ''profiles/assignments'') None)
                  = Inr (items_json (map assignment_json as))"
  shows "fst (list_profiles e g) = JArr (map (spec_enriched_profile as ns) ps)"
proof -
  have org: "str_truthy (ORGANIZATION_ID g)"
    using get_networks_ldl_list(1) [OF nets] .
  define g1 where "g1 = g\<lparr>log := log g @
      [CallHttp ''GET'' (local_dns_url (ORGANIZATION_ID g) ''profiles'') None]\<rparr>"
  have r1: "make_request e ''GET'' ''profiles'' None g = (items_json (map profile_json ps), g1)"
    using make_request_delivers [OF org profs] by (simp add: g1_def)
  have o1: "ORGANIZATION_ID g1 = ORGANIZATION_ID g" by (simp add: g1_def)
  have nets1: "fst (get_networks_ldl e g1) = Inr (JArr (map network_json ns))"
    using nets by (simp add: g1_def get_networks_ldl_log)
  define g2 where "g2 = snd (list_network_assignments e g1)"
  note a = list_network_assignments_encoded [OF nets1 profs [folded o1] asgs [folded o1],
             folded g2_def, unfolded o1]
  have r2: "list_network_assignments e g1 = (JArr (map (spec_enriched_assignment ns ps) as), g2)"
    using a(1) by (simp add: g2_def prod_eq_iff)
  have r3: "list_networks_ldl e g2 = (Inr (JArr (map spec_network_row ns)), g2)"
    using list_networks_ldl_cached [of g2 ns e] org a(2,3) by simp
  have items: "truthy (items_json (map profile_json ps))"
              "py_contains ''items'' (items_json (map profile_json ps)) = Inr True"
              "py_getitem (items_json (map profile_json ps)) ''items''
                 = Inr (JArr (map profile_json ps))"
    by (simp_all add: items_json_def)
  have dflt: "(if truthy (JArr (map (spec_enriched_assignment ns ps) as))
               then JArr (map (spec_enriched_assignment ns ps) as) else JArr [])
              = JArr (map (spec_enriched_assignment ns ps) as)"
    by (cases as) simp_all
  have run: "list_profiles_try e g = (Inr (JArr (map (spec_enriched_profile as ns) ps)), g2)"
    unfolding list_profiles_try_def r1 prod.case r2 dflt
    by (simp add: items and_then_def r3 profiles_table_encoded)
  show ?thesis
    by (simp add: list_profiles_def unexpected_error_def run)
qed

lemma vendor_env_serves:
  "fst (get_networks_ldl (vendor_env ps as ns) selected_globals) = Inr (JArr (map network_json ns))"
  "read_response (request (vendor_env ps as ns) ''GET''
      (local_dns_url (ORGANIZATION_ID selected_globals) ''profiles'') None)
     = Inr (items_json (map profile_json ps))"
  "read_response (request (vendor_env ps as ns) ''GET''
      (local_dns_url (ORGANIZATION_ID selected_globals) ''profiles/assignments'') None)
     = Inr (items_json (map assignment_json as))"
  by (simp_all add: get_networks_ldl_def get_dashboard_ldl_def vendor_env_def selected_globals_def
        fresh_globals_def read_response_def raise_for_status_def json_response_def
        strip_truthy_def is_py_space_def local_dns_url_def Let_def)

text \<open>
  Claim C3, as amended. Let the vendor hold the profiles \<open>ps\<close>, the assignments \<open>as\<close> and
  the networks \<open>ns\<close>, all with string fields. The assignment listing shows, for every
  assignment, the name of its network, or \<open>[unknown]\<close> when its network id is not in the
  network list. The profile listing shows, for every profile, the network of the last
  assignment for it whose profile id and network id are both non-empty, with the network's
  name or \<open>[unknown]\<close>; a profile without such an assignment shows \<open>[unassigned]\<close> for
  the network id and the network name. Neither listing is an error record.
\<close>

theorem list_profiles_join:
  assumes "fst (get_networks_ldl e g) = Inr (JArr (map network_json ns))"
      and "read_response (request e ''GET'' (local_dns_url (ORGANIZATION_ID g) ''profiles'')
             None) = Inr (items_json (map profile_json ps))"
      and "read_response (request e ''GET''
             (local_dns_url (ORGANIZATION_ID g) ''profiles/assignments'') None)
           = Inr (items_json (map assignment_json as))"
  shows "fst (list_network_assignments e g) = JArr (map (spec_enriched_assignment ns ps) as)
       \<and> fst (list_profiles e g) = JArr (map (spec_enriched_profile as ns) ps)"
  using list_network_assignments_encoded(1) [OF assms] list_profiles_encoded [OF assms]
  by simp

theorem list_profiles_join_witness:
  "fst (get_networks_ldl (vendor_env [profile_p1] [assignment_p1_n1] [network_n1]) selected_globals)
     = Inr (JArr (map network_json [network_n1]))
   \<and> fst (list_profiles (vendor_env [profile_p1] [assignment_p1_n1] [network_n1]) selected_globals)
     = JArr [JObj [(''Profile ID'', JStr ''p1''), (''Name'', JStr ''Office''),
                   (''Network ID'', JStr ''n1''), (''Network Name'', JStr ''Net1'')]]
   \<and> fst (list_profiles (vendor_env [profile_p1] [assignment_p1_n1] []) selected_globals)
     = JArr [JObj [(''Profile ID'', JStr ''p1''), (''Name'', JStr ''Office''),
                   (''Network ID'', JStr ''n1''), (''Network Name'', JStr ''[unknown]'')]]
   \<and> fst (list_profiles (vendor_env [profile_p1] [] [network_n1]) selected_globals)
     = JArr [JObj [(''Profile ID'', JStr ''p1''), (''Name'', JStr ''Office''),
                   (''Network ID'', JStr ''[unassigned]''),
                   (''Network Name'', JStr ''[unassigned]'')]]"
  using list_profiles_join [OF vendor_env_serves, of "[profile_p1]" "[assignment_p1_n1]" "[network_n1]"]
        list_profiles_join [OF vendor_env_serves, of "[profile_p1]" "[assignment_p1_n1]" "[]"]
        list_profiles_join [OF vendor_env_serves, of "[profile_p1]" "[]" "[network_n1]"]
        vendor_env_serves(1) [of "[profile_p1]" "[assignment_p1_n1]" "[network_n1]"]
  by (simp add: spec_enriched_profile_def spec_assigned_network_def spec_network_name_def
        profile_p1_def assignment_p1_n1_def network_n1_def)

text \<open>
  Claim C3 as stated fails where an assignment's network id is empty. The profile \<open>p1\<close>
  has an assignment; its network id, the empty string, is not in the network list, and the
  assignment listing shows \<open>[unknown]\<close> for it; yet the profile listing shows
  \<open>[unassigned]\<close> for \<open>p1\<close>, because the join skips an assignment with a falsy id.
\<close>

theorem list_profiles_empty_network_id_counterexample:
  "a_profile assignment_p1_no_network = p_id profile_p1
   \<and> a_network assignment_p1_no_network \<notin> set (map n_id [network_n1])
   \<and> fst (list_network_assignments
            (vendor_env [profile_p1] [assignment_p1_no_network] [network_n1]) selected_globals)
     = JArr [JObj [(''Assignment ID'', JStr ''a1''), (''Network ID'', JStr []),
                   (''Network Name'', JStr ''[unknown]''), (''Profile ID'', JStr ''p1''),
                   (''Profile Name'', JStr ''Office'')]]
   \<and> fst (list_profiles
            (vendor_env [profile_p1] [assignment_p1_no_network] [network_n1]) selected_globals)
     = JArr [JObj [(''Profile ID'', JStr ''p1''), (''Name'', JStr ''Office''),
                   (''Network ID'', JStr ''[unassigned]''),
                   (''Network Name'', JStr ''[unassigned]'')]]"
  using list_network_assignments_encoded(1) [OF vendor_env_serves,
          of "[profile_p1]" "[assignment_p1_no_network]" "[network_n1]"]
        list_profiles_encoded [OF vendor_env_serves,
          of "[profile_p1]" "[assignment_p1_no_network]" "[network_n1]"]
  by (simp add: spec_enriched_profile_def spec_enriched_assignment_def spec_assigned_network_def
        spec_network_name_def spec_profile_name_def
        profile_p1_def assignment_p1_no_network_def network_n1_def)

end
